theory Spec2Isabelle
  imports Main
begin

section \<open>The step schema and the component state\<close>

text \<open>
  The component \<^verbatim>\<open>EventLoopVisualizer\<close> keeps its model in React state hooks. A
  \<^verbatim>\<open>Step\<close> is an object with a string discriminant \<^verbatim>\<open>action\<close> and optional
  fields. Every step literal of the source (the authored examples and the steps pushed
  by \<^verbatim>\<open>parseCustomCode\<close>) carries one of the eight action strings that
  \<^verbatim>\<open>executeStep\<close> switches on, so the discriminant is a datatype with the source's
  eight literals as constructors. An absent optional field is \<open>None\<close>.

  Strings are byte strings (\<open>char list\<close>); the model is exact for ASCII text. The
  queues hold \<open>string option\<close>, because \<^verbatim>\<open>step.item!\<close> only silences the type
  checker: a step without the field appends \<^verbatim>\<open>undefined\<close>, modelled as \<open>None\<close>.

  Two field names differ from the source: the step field \<^verbatim>\<open>from\<close> is \<open>from_api\<close>, and
  the \<^verbatim>\<open>callback\<close> field of a registry entry is \<open>api_callback\<close>, to keep it apart
  from the \<^verbatim>\<open>callback\<close> field of a step. Line numbers are natural numbers.
\<close>

datatype action =
    addToStack
  | removeFromStack
  | addToWebAPI
  | moveToTaskQueue
  | addToMicroTask
  | processMicroTasks
  | checkEventLoop
  | log

record WebAPIItem =
  label :: "string option"
  api_callback :: "string option"

record Step =
  action :: action
  item :: "string option"
  execute :: "bool option"
  line :: "nat option"
  message :: "string option"
  from_api :: "string option"
  callback :: "string option"
  explanation :: "string option"

record Example =
  name :: string
  description :: string
  code :: string
  steps :: "Step list"

datatype ExampleKey =
    basic | promise | advanced | fetch | asyncAwait | multiplePromises | eventListener
  | apiError | debounce | promiseRace | requestAnimationFrame | custom

datatype mode = preset | customMode

text \<open>
  The state hooks of the component that the interpreter and the compiler read or write.
  The speed, the elapsed wall-clock time, the start-time ref and the modal flags are
  presentation and timing state and are left out.
\<close>

record visualizer =
  isRunning :: bool
  callStack :: "string option list"
  taskQueue :: "string option list"
  microTaskQueue :: "string option list"
  webAPIs :: "WebAPIItem list"
  logs :: "string option list"
  currentStep :: nat
  selectedExample :: ExampleKey
  highlightedLine :: "nat option"
  currentExplanation :: string
  mode :: mode
  customCode :: string
  codeError :: string
  customExample :: Example
  eventLoopCycles :: nat

definition mkStep :: "action \<Rightarrow> Step" where
  "mkStep a = \<lparr>action = a, item = None, execute = None, line = None, message = None,
     from_api = None, callback = None, explanation = None\<rparr>"

definition initialCustomExample :: Example where
  "initialCustomExample =
     \<lparr>name = ''Custom Code'', description = ''Your custom example'', code = '''', steps = []\<rparr>"

definition startExplanation :: string where
  \<open>startExplanation = ''Click "Start" or "Next" to begin stepping through the code execution.''\<close>

definition initialState :: visualizer where
  "initialState =
     \<lparr>isRunning = False, callStack = [], taskQueue = [], microTaskQueue = [], webAPIs = [],
      logs = [], currentStep = 0, selectedExample = basic, highlightedLine = None,
      currentExplanation = startExplanation, mode = preset, customCode = '''',
      codeError = '''', customExample = initialCustomExample, eventLoopCycles = 0\<rparr>"

section \<open>The interpreter: executeStep, reset, nextStep, prevStep, goToStep\<close>

text \<open>
  \<^verbatim>\<open>executeStep\<close> queues state updates. Every update is a functional updater
  (\<^verbatim>\<open>prev => ...\<close>) or a constant, applied by React in call order to the pending
  state \<open>s\<close>. The two guards \<^verbatim>\<open>microTaskQueue.length > 0\<close> and
  \<^verbatim>\<open>taskQueue.length > 0\<close> do not read the pending state: they read the constants
  of the render in which the handler was created, here the argument \<open>rendered\<close>.

  \<^verbatim>\<open>if (step.explanation)\<close> is a truthiness test: an absent or empty explanation leaves
  the current one. \<^verbatim>\<open>slice(0, -1)\<close> is \<open>butlast\<close> and \<^verbatim>\<open>slice(1)\<close> is \<open>drop 1\<close>;
  both return the empty array on the empty array and never throw.
\<close>

definition setLineAndExplanation :: "Step \<Rightarrow> visualizer \<Rightarrow> visualizer" where
  "setLineAndExplanation step s =
     (let s1 = (case line step of Some l \<Rightarrow> s\<lparr>highlightedLine := Some l\<rparr> | None \<Rightarrow> s)
      in case explanation step of
           Some e \<Rightarrow> (if e \<noteq> [] then s1\<lparr>currentExplanation := e\<rparr> else s1)
         | None \<Rightarrow> s1)"

definition executeStep :: "visualizer \<Rightarrow> Step \<Rightarrow> visualizer \<Rightarrow> visualizer" where
  "executeStep rendered step s =
     (let s2 = setLineAndExplanation step s
      in case action step of
           addToStack \<Rightarrow> s2\<lparr>callStack := callStack s2 @ [item step]\<rparr>
         | removeFromStack \<Rightarrow> s2\<lparr>callStack := butlast (callStack s2)\<rparr>
         | addToWebAPI \<Rightarrow>
             s2\<lparr>webAPIs := webAPIs s2 @ [\<lparr>label = item step, api_callback = callback step\<rparr>]\<rparr>
         | moveToTaskQueue \<Rightarrow>
             s2\<lparr>webAPIs := drop 1 (webAPIs s2), taskQueue := taskQueue s2 @ [callback step]\<rparr>
         | addToMicroTask \<Rightarrow> s2\<lparr>microTaskQueue := microTaskQueue s2 @ [item step]\<rparr>
         | processMicroTasks \<Rightarrow>
             (if length (microTaskQueue rendered) > 0
              then s2\<lparr>microTaskQueue := drop 1 (microTaskQueue s2)\<rparr> else s2)
         | checkEventLoop \<Rightarrow>
             (let s3 = (if length (taskQueue rendered) > 0
                        then s2\<lparr>taskQueue := drop 1 (taskQueue s2)\<rparr> else s2)
              in s3\<lparr>eventLoopCycles := eventLoopCycles s3 + 1\<rparr>)
         | log \<Rightarrow> s2\<lparr>logs := logs s2 @ [message step]\<rparr>)"

definition reset :: "visualizer \<Rightarrow> visualizer" where
  "reset s = s\<lparr>isRunning := False, callStack := [], taskQueue := [], microTaskQueue := [],
     webAPIs := [], logs := [], currentStep := 0, highlightedLine := None,
     currentExplanation := startExplanation, eventLoopCycles := 0\<rparr>"

text \<open>
  \<^verbatim>\<open>nextStep\<close> executes one step in the render it was created in, so the guards see
  the state the step is applied to.
\<close>

definition nextStep :: "Step list \<Rightarrow> visualizer \<Rightarrow> visualizer" where
  "nextStep sts s =
     (if currentStep s < length sts
      then (executeStep s (sts ! currentStep s) (s\<lparr>isRunning := False\<rparr>))
             \<lparr>currentStep := currentStep s + 1\<rparr>
      else s)"

datatype error = TypeError

text \<open>
  \<^verbatim>\<open>goToStep\<close> and \<^verbatim>\<open>prevStep\<close> reset and then replay a prefix inside one handler:
  every \<^verbatim>\<open>executeStep\<close> of the loop closes over the same render \<open>s\<close>. An index past the
  end reads \<^verbatim>\<open>steps[i] === undefined\<close> and \<^verbatim>\<open>step.line\<close> throws a TypeError.
\<close>

definition replayFrom :: "visualizer \<Rightarrow> Step list \<Rightarrow> visualizer \<Rightarrow> visualizer" where
  "replayFrom rendered sts s = foldl (\<lambda>acc step. executeStep rendered step acc) s sts"

definition goToStep :: "Step list \<Rightarrow> nat \<Rightarrow> visualizer \<Rightarrow> error + visualizer" where
  "goToStep sts stepNumber s =
     (if stepNumber \<le> length sts
      then Inr ((replayFrom s (take stepNumber sts) (reset (s\<lparr>isRunning := False\<rparr>)))
                  \<lparr>currentStep := stepNumber\<rparr>)
      else Inl TypeError)"

definition prevStep :: "Step list \<Rightarrow> visualizer \<Rightarrow> error + visualizer" where
  "prevStep sts s =
     (if currentStep s > 0
      then (if currentStep s - 1 \<le> length sts
            then Inr ((replayFrom s (take (currentStep s - 1) sts)
                         (reset (s\<lparr>isRunning := False\<rparr>)))
                        \<lparr>currentStep := currentStep s - 1\<rparr>)
            else Inl TypeError)
      else Inr s)"

section \<open>The example library\<close>

text \<open>
  The eleven authored examples, field by field as the source writes them. A code field
  is a template literal of several lines; it is written here as its lines joined by line
  feeds. Bytes outside ASCII are the bytes of the source file.
\<close>

definition newline :: char where
  "newline = CHR 0x0A"

primrec joinLines :: "string list \<Rightarrow> string" where
  "joinLines [] = []"
| "joinLines (l # ls) = (if ls = [] then l else l @ [newline] @ joinLines ls)"

definition basic_code :: string where
  \<open>basic_code = joinLines
     [''console.log("Start");'',
      '''',
      ''setTimeout(() => {'',
      ''  console.log("Timeout");'',
      ''}, 0);'',
      '''',
      ''console.log("End");'']\<close>

definition promise_code :: string where
  \<open>promise_code = joinLines
     [''console.log("Start");'',
      '''',
      ''setTimeout(() => {'',
      ''  console.log("Timeout");'',
      ''}, 0);'',
      '''',
      ''Promise.resolve().then(() => {'',
      ''  console.log("Promise");'',
      ''});'',
      '''',
      ''console.log("End");'']\<close>

definition advanced_code :: string where
  \<open>advanced_code = joinLines
     [''console.log("1");'',
      '''',
      ''setTimeout(() => {'',
      ''  console.log("2");'',
      ''}, 100);'',
      '''',
      ''setTimeout(() => {'',
      ''  console.log("3");'',
      ''}, 0);'',
      '''',
      ''Promise.resolve().then(() => {'',
      ''  console.log("4");'',
      ''});'',
      '''',
      ''console.log("5");'']\<close>

definition fetch_code :: string where
  \<open>fetch_code = joinLines
     [''console.log("Start fetch");'',
      '''',
      ''fetch('' @ [CHR 0x27] @ ''/api/data'' @ [CHR 0x27] @ '')'',
      ''  .then(res => res.json())'',
      ''  .then(data => {'',
      ''    console.log("Data received");'',
      ''  });'',
      '''',
      ''console.log("Fetch initiated");'']\<close>

definition asyncAwait_code :: string where
  \<open>asyncAwait_code = joinLines
     [''console.log("Before async");'',
      '''',
      ''async function getData() {'',
      ''  console.log("In async");'',
      ''  const data = await Promise.resolve("data");'',
      ''  console.log("After await");'',
      ''}'',
      '''',
      ''getData();'',
      ''console.log("After call");'']\<close>

definition multiplePromises_code :: string where
  \<open>multiplePromises_code = joinLines
     [''console.log("Start");'',
      '''',
      ''Promise.resolve()'',
      ''  .then(() => console.log("Promise 1"))'',
      ''  .then(() => console.log("Promise 2"));'',
      '''',
      ''Promise.resolve()'',
      ''  .then(() => console.log("Promise 3"));'',
      '''',
      ''console.log("End");'']\<close>

definition eventListener_code :: string where
  \<open>eventListener_code = joinLines
     [''console.log("Setup");'',
      '''',
      ''button.addEventListener('' @ [CHR 0x27] @ ''click'' @ [CHR 0x27] @ '', () => {'',
      ''  console.log("Button clicked");'',
      ''  Promise.resolve().then(() => {'',
      ''    console.log("After click");'',
      ''  });'',
      ''});'',
      '''',
      ''console.log("Ready");'',
      ''// User clicks button here'']\<close>

definition apiError_code :: string where
  \<open>apiError_code = joinLines
     [''console.log("Fetching user");'',
      '''',
      ''async function getUser() {'',
      ''  try {'',
      ''    const res = await fetch('' @ [CHR 0x27] @ ''/user'' @ [CHR 0x27] @ '');'',
      ''    console.log("Success");'',
      ''  } catch (error) {'',
      ''    console.log("Error caught");'',
      ''  }'',
      ''}'',
      '''',
      ''getUser();'',
      ''console.log("Request sent");'']\<close>

definition debounce_code :: string where
  \<open>debounce_code = joinLines
     [''let timeout;'',
      '''',
      ''function onSearch(text) {'',
      ''  clearTimeout(timeout);'',
      ''  timeout = setTimeout(() => {'',
      ''    console.log("Search: " + text);'',
      ''  }, 300);'',
      ''}'',
      '''',
      ''onSearch("H");'',
      ''onSearch("He");'',
      ''onSearch("Hel");'']\<close>

definition promiseRace_code :: string where
  \<open>promiseRace_code = joinLines
     [''console.log("Start request");'',
      '''',
      ''const timeout = new Promise((_, reject) => {'',
      ''  setTimeout(() => reject("Timeout"), 1000);'',
      ''});'',
      '''',
      ''const request = fetch('' @ [CHR 0x27] @ ''/slow-api'' @ [CHR 0x27] @ '');'',
      '''',
      ''Promise.race([request, timeout])'',
      ''  .then(() => console.log("Success"))'',
      ''  .catch(() => console.log("Failed"));'',
      '''',
      ''console.log("Racing...");'']\<close>

definition requestAnimationFrame_code :: string where
  \<open>requestAnimationFrame_code = joinLines
     [''console.log("Animation start");'',
      '''',
      ''let count = 0;'',
      ''function animate() {'',
      ''  console.log("Frame " + count++);'',
      ''  if (count < 3) {'',
      ''    requestAnimationFrame(animate);'',
      ''  }'',
      ''}'',
      '''',
      ''requestAnimationFrame(animate);'',
      ''console.log("Scheduled");'']\<close>

definition basic_steps :: "Step list" where
  \<open>basic_steps = [
    (mkStep addToStack)\<lparr>item := Some (''console.log("Start")''),
       execute := Some True,
       line := Some 1,
       explanation := Some (''Synchronous code executes immediately. console.log("Start") is pushed to the call stack.'')\<rparr>,
    (mkStep log)\<lparr>message := Some (''Start''),
       explanation := Some (''The function executes and prints "Start" to the console.'')\<rparr>,
    (mkStep removeFromStack)\<lparr>explanation := Some (''console.log completes and is removed from the call stack.'')\<rparr>,
    (mkStep addToStack)\<lparr>item := Some (''setTimeout(cb, 0)''),
       execute := Some False,
       line := Some 3,
       explanation := Some (''setTimeout is called and pushed to the call stack. Even with 0ms delay, the callback is not executed immediately.'')\<rparr>,
    (mkStep addToWebAPI)\<lparr>item := Some (''Timer: 0ms''),
       callback := Some (''console.log("Timeout")''),
       explanation := Some (''The browser'' @ [CHR 0x27] @ ''s Web API takes over the timer. The callback is registered to execute after 0ms.'')\<rparr>,
    (mkStep removeFromStack)\<lparr>explanation := Some (''setTimeout completes its job (registering the timer) and is removed from the stack.'')\<rparr>,
    (mkStep addToStack)\<lparr>item := Some (''console.log("End")''),
       execute := Some True,
       line := Some 7,
       explanation := Some (''The next synchronous line executes. console.log("End") is pushed to the call stack.'')\<rparr>,
    (mkStep log)\<lparr>message := Some (''End''),
       explanation := Some (''Prints "End" to the console. Notice how this runs before "Timeout"!'')\<rparr>,
    (mkStep removeFromStack)\<lparr>explanation := Some (''console.log("End") completes and the call stack is now empty.'')\<rparr>,
    (mkStep moveToTaskQueue)\<lparr>from_api := Some (''webAPI''),
       callback := Some (''console.log("Timeout")''),
       line := Some 4,
       explanation := Some (''The timer completes and the callback moves from Web APIs to the Task Queue, waiting for execution.'')\<rparr>,
    (mkStep checkEventLoop)\<lparr>explanation := Some (''Event Loop checks: Is the call stack empty? Yes! It takes the first task from the Task Queue.'')\<rparr>,
    (mkStep addToStack)\<lparr>item := Some (''console.log("Timeout")''),
       execute := Some True,
       line := Some 4,
       explanation := Some (''The setTimeout callback is now pushed to the call stack and executes.'')\<rparr>,
    (mkStep log)\<lparr>message := Some (''Timeout''),
       explanation := Some (''Finally prints "Timeout" to the console.'')\<rparr>,
    (mkStep removeFromStack)\<lparr>explanation := Some (''Callback completes. All done! Output order: Start '' @ [CHR 0xC3, CHR 0xA2, CHR 0xE2, CHR 0x80, CHR 0xA0, CHR 0xE2, CHR 0x80, CHR 0x99] @ '' End '' @ [CHR 0xC3, CHR 0xA2, CHR 0xE2, CHR 0x80, CHR 0xA0, CHR 0xE2, CHR 0x80, CHR 0x99] @ '' Timeout'')\<rparr>
  ]\<close>

definition promise_steps :: "Step list" where
  \<open>promise_steps = [
    (mkStep addToStack)\<lparr>item := Some (''console.log("Start")''),
       execute := Some True,
       line := Some 1,
       explanation := Some (''First synchronous statement executes immediately.'')\<rparr>,
    (mkStep log)\<lparr>message := Some (''Start''),
       explanation := Some (''Prints "Start" to console.'')\<rparr>,
    (mkStep removeFromStack)\<lparr>explanation := Some (''Removed from call stack after execution.'')\<rparr>,
    (mkStep addToStack)\<lparr>item := Some (''setTimeout(cb, 0)''),
       execute := Some False,
       line := Some 3,
       explanation := Some (''setTimeout registers a callback to execute after 0ms.'')\<rparr>,
    (mkStep addToWebAPI)\<lparr>item := Some (''Timer: 0ms''),
       callback := Some (''console.log("Timeout")''),
       explanation := Some (''Browser'' @ [CHR 0x27] @ ''s Web API handles the timer. Callback will go to Task Queue after completion.'')\<rparr>,
    (mkStep removeFromStack)\<lparr>explanation := Some (''setTimeout registration completes.'')\<rparr>,
    (mkStep addToStack)\<lparr>item := Some (''Promise.resolve()''),
       execute := Some False,
       line := Some 7,
       explanation := Some (''Promise.resolve() creates an immediately resolved promise.'')\<rparr>,
    (mkStep addToMicroTask)\<lparr>item := Some (''console.log("Promise")''),
       explanation := Some (''Promise callbacks go to the Microtask Queue, which has HIGHER priority than the Task Queue!'')\<rparr>,
    (mkStep removeFromStack)\<lparr>explanation := Some (''Promise registration completes.'')\<rparr>,
    (mkStep addToStack)\<lparr>item := Some (''console.log("End")''),
       execute := Some True,
       line := Some 11,
       explanation := Some (''Next synchronous statement executes.'')\<rparr>,
    (mkStep log)\<lparr>message := Some (''End''),
       explanation := Some (''Prints "End" to console.'')\<rparr>,
    (mkStep removeFromStack)\<lparr>explanation := Some (''Call stack is now empty. Time for the Event Loop to work!'')\<rparr>,
    (mkStep processMicroTasks)\<lparr>line := Some 8,
       explanation := Some (''Event Loop processes ALL microtasks FIRST before checking the Task Queue. This is why Promises execute before setTimeout!'')\<rparr>,
    (mkStep addToStack)\<lparr>item := Some (''console.log("Promise")''),
       execute := Some True,
       line := Some 8,
       explanation := Some (''Promise callback executes from Microtask Queue.'')\<rparr>,
    (mkStep log)\<lparr>message := Some (''Promise''),
       explanation := Some (''Prints "Promise" to console.'')\<rparr>,
    (mkStep removeFromStack)\<lparr>explanation := Some (''Promise callback completes.'')\<rparr>,
    (mkStep moveToTaskQueue)\<lparr>from_api := Some (''webAPI''),
       callback := Some (''console.log("Timeout")''),
       line := Some 4,
       explanation := Some (''Timer completes and callback moves to Task Queue.'')\<rparr>,
    (mkStep checkEventLoop)\<lparr>explanation := Some (''All microtasks are done. Now Event Loop takes one task from Task Queue.'')\<rparr>,
    (mkStep addToStack)\<lparr>item := Some (''console.log("Timeout")''),
       execute := Some True,
       line := Some 4,
       explanation := Some (''setTimeout callback finally executes.'')\<rparr>,
    (mkStep log)\<lparr>message := Some (''Timeout''),
       explanation := Some (''Prints "Timeout" to console. Order: Start '' @ [CHR 0xC3, CHR 0xA2, CHR 0xE2, CHR 0x80, CHR 0xA0, CHR 0xE2, CHR 0x80, CHR 0x99] @ '' End '' @ [CHR 0xC3, CHR 0xA2, CHR 0xE2, CHR 0x80, CHR 0xA0, CHR 0xE2, CHR 0x80, CHR 0x99] @ '' Promise '' @ [CHR 0xC3, CHR 0xA2, CHR 0xE2, CHR 0x80, CHR 0xA0, CHR 0xE2, CHR 0x80, CHR 0x99] @ '' Timeout'')\<rparr>,
    (mkStep removeFromStack)\<lparr>explanation := Some (''All done! Key takeaway: Microtasks always execute before Tasks.'')\<rparr>
  ]\<close>

definition advanced_steps :: "Step list" where
  \<open>advanced_steps = [
    (mkStep addToStack)\<lparr>item := Some (''console.log("1")''),
       execute := Some True,
       line := Some 1,
       explanation := Some (''First synchronous operation executes immediately.'')\<rparr>,
    (mkStep log)\<lparr>message := Some (''1''),
       explanation := Some (''Output: 1'')\<rparr>,
    (mkStep removeFromStack)\<lparr>explanation := Some (''Removed from stack.'')\<rparr>,
    (mkStep addToStack)\<lparr>item := Some (''setTimeout(cb, 100)''),
       execute := Some False,
       line := Some 3,
       explanation := Some (''Registers a timer with 100ms delay.'')\<rparr>,
    (mkStep addToWebAPI)\<lparr>item := Some (''Timer: 100ms''),
       callback := Some (''console.log("2")''),
       explanation := Some (''This callback will wait 100ms before being ready.'')\<rparr>,
    (mkStep removeFromStack)\<lparr>explanation := Some (''setTimeout completes registration.'')\<rparr>,
    (mkStep addToStack)\<lparr>item := Some (''setTimeout(cb, 0)''),
       execute := Some False,
       line := Some 7,
       explanation := Some (''Registers another timer with 0ms delay.'')\<rparr>,
    (mkStep addToWebAPI)\<lparr>item := Some (''Timer: 0ms''),
       callback := Some (''console.log("3")''),
       explanation := Some (''This timer completes almost immediately but still goes through Web APIs.'')\<rparr>,
    (mkStep removeFromStack)\<lparr>explanation := Some (''Second setTimeout completes.'')\<rparr>,
    (mkStep addToStack)\<lparr>item := Some (''Promise.resolve()''),
       execute := Some False,
       line := Some 11,
       explanation := Some (''Creates an immediately resolved promise.'')\<rparr>,
    (mkStep addToMicroTask)\<lparr>item := Some (''console.log("4")''),
       explanation := Some (''Promise callback goes to Microtask Queue (higher priority!)'')\<rparr>,
    (mkStep removeFromStack)\<lparr>explanation := Some (''Promise setup completes.'')\<rparr>,
    (mkStep addToStack)\<lparr>item := Some (''console.log("5")''),
       execute := Some True,
       line := Some 15,
       explanation := Some (''Last synchronous operation.'')\<rparr>,
    (mkStep log)\<lparr>message := Some (''5''),
       explanation := Some (''Output: 5. All sync code is done!'')\<rparr>,
    (mkStep removeFromStack)\<lparr>explanation := Some (''Call stack is empty. Event Loop activates!'')\<rparr>,
    (mkStep processMicroTasks)\<lparr>line := Some 12,
       explanation := Some (''Event Loop MUST process ALL microtasks before any task from Task Queue.'')\<rparr>,
    (mkStep addToStack)\<lparr>item := Some (''console.log("4")''),
       execute := Some True,
       line := Some 12,
       explanation := Some (''Promise callback executes from Microtask Queue.'')\<rparr>,
    (mkStep log)\<lparr>message := Some (''4''),
       explanation := Some (''Output: 4'')\<rparr>,
    (mkStep removeFromStack)\<lparr>explanation := Some (''Microtask complete. Now checking Task Queue...'')\<rparr>,
    (mkStep moveToTaskQueue)\<lparr>from_api := Some (''webAPI''),
       callback := Some (''console.log("3")''),
       line := Some 8,
       explanation := Some (''The 0ms timer completed and moved to Task Queue.'')\<rparr>,
    (mkStep checkEventLoop)\<lparr>explanation := Some (''Event Loop takes the first task from Task Queue.'')\<rparr>,
    (mkStep addToStack)\<lparr>item := Some (''console.log("3")''),
       execute := Some True,
       line := Some 8,
       explanation := Some (''First setTimeout callback (0ms delay) executes.'')\<rparr>,
    (mkStep log)\<lparr>message := Some (''3''),
       explanation := Some (''Output: 3'')\<rparr>,
    (mkStep removeFromStack)\<lparr>explanation := Some (''Task complete. Event Loop continues...'')\<rparr>,
    (mkStep moveToTaskQueue)\<lparr>from_api := Some (''webAPI''),
       callback := Some (''console.log("2")''),
       line := Some 4,
       explanation := Some (''The 100ms timer completed and moved to Task Queue.'')\<rparr>,
    (mkStep checkEventLoop)\<lparr>explanation := Some (''Event Loop takes the next task.'')\<rparr>,
    (mkStep addToStack)\<lparr>item := Some (''console.log("2")''),
       execute := Some True,
       line := Some 4,
       explanation := Some (''Second setTimeout callback (100ms delay) executes last.'')\<rparr>,
    (mkStep log)\<lparr>message := Some (''2''),
       explanation := Some (''Output: 2. Final order: 1 '' @ [CHR 0xC3, CHR 0xA2, CHR 0xE2, CHR 0x80, CHR 0xA0, CHR 0xE2, CHR 0x80, CHR 0x99] @ '' 5 '' @ [CHR 0xC3, CHR 0xA2, CHR 0xE2, CHR 0x80, CHR 0xA0, CHR 0xE2, CHR 0x80, CHR 0x99] @ '' 4 '' @ [CHR 0xC3, CHR 0xA2, CHR 0xE2, CHR 0x80, CHR 0xA0, CHR 0xE2, CHR 0x80, CHR 0x99] @ '' 3 '' @ [CHR 0xC3, CHR 0xA2, CHR 0xE2, CHR 0x80, CHR 0xA0, CHR 0xE2, CHR 0x80, CHR 0x99] @ '' 2'')\<rparr>,
    (mkStep removeFromStack)\<lparr>explanation := Some (''All operations complete! Notice: sync first, then microtasks, then tasks by timing.'')\<rparr>
  ]\<close>

definition fetch_steps :: "Step list" where
  \<open>fetch_steps = [
    (mkStep addToStack)\<lparr>item := Some (''console.log("Start fetch")''),
       execute := Some True,
       line := Some 1,
       explanation := Some (''Starting the fetch operation sequence.'')\<rparr>,
    (mkStep log)\<lparr>message := Some (''Start fetch''),
       explanation := Some (''Output: Start fetch'')\<rparr>,
    (mkStep removeFromStack)\<lparr>explanation := Some (''Console.log completes.'')\<rparr>,
    (mkStep addToStack)\<lparr>item := Some (''fetch("/api/data")''),
       execute := Some False,
       line := Some 3,
       explanation := Some (''fetch() initiates an HTTP request. This is handled by the browser'' @ [CHR 0x27] @ ''s Web API.'')\<rparr>,
    (mkStep addToWebAPI)\<lparr>item := Some (''Fetch: /api/data''),
       callback := Some (''Promise.then()''),
       explanation := Some (''The network request is processed by Web APIs. When complete, the .then() callback will be queued.'')\<rparr>,
    (mkStep removeFromStack)\<lparr>explanation := Some (''fetch() registration completes immediately (non-blocking!)'')\<rparr>,
    (mkStep addToStack)\<lparr>item := Some (''console.log("Fetch initiated")''),
       execute := Some True,
       line := Some 9,
       explanation := Some (''Code continues executing while the fetch happens in the background.'')\<rparr>,
    (mkStep log)\<lparr>message := Some (''Fetch initiated''),
       explanation := Some (''Output: Fetch initiated. Notice this runs before data is received!'')\<rparr>,
    (mkStep removeFromStack)\<lparr>explanation := Some (''All synchronous code complete.'')\<rparr>,
    (mkStep moveToTaskQueue)\<lparr>from_api := Some (''webAPI''),
       callback := Some (''Promise.then()''),
       line := Some 4,
       explanation := Some (''Fetch completes. The response promise resolves and the .then() callback is queued.'')\<rparr>,
    (mkStep addToMicroTask)\<lparr>item := Some (''res.json()''),
       explanation := Some (''res.json() returns a promise, adding to Microtask Queue.'')\<rparr>,
    (mkStep processMicroTasks)\<lparr>line := Some 5,
       explanation := Some (''Processing the JSON parsing microtask.'')\<rparr>,
    (mkStep addToMicroTask)\<lparr>item := Some (''console.log("Data received")''),
       explanation := Some (''Second .then() callback is queued as a microtask.'')\<rparr>,
    (mkStep processMicroTasks)\<lparr>line := Some 6,
       explanation := Some (''Now executing the final .then() callback.'')\<rparr>,
    (mkStep addToStack)\<lparr>item := Some (''console.log("Data received")''),
       execute := Some True,
       line := Some 6,
       explanation := Some (''The data handling callback executes.'')\<rparr>,
    (mkStep log)\<lparr>message := Some (''Data received''),
       explanation := Some (''Output: Data received. Fetch complete!'')\<rparr>,
    (mkStep removeFromStack)\<lparr>explanation := Some (''Fetch operation fully complete. Order shows non-blocking nature of fetch!'')\<rparr>
  ]\<close>

definition asyncAwait_steps :: "Step list" where
  \<open>asyncAwait_steps = [
    (mkStep addToStack)\<lparr>item := Some (''console.log("Before async")''),
       execute := Some True,
       line := Some 1,
       explanation := Some (''First synchronous line executes.'')\<rparr>,
    (mkStep log)\<lparr>message := Some (''Before async''),
       explanation := Some (''Output: Before async'')\<rparr>,
    (mkStep removeFromStack)\<lparr>explanation := Some (''Removed from stack.'')\<rparr>,
    (mkStep addToStack)\<lparr>item := Some (''getData()''),
       execute := Some False,
       line := Some 9,
       explanation := Some (''Calling the async function. Async functions always return a Promise!'')\<rparr>,
    (mkStep addToStack)\<lparr>item := Some (''console.log("In async")''),
       execute := Some True,
       line := Some 4,
       explanation := Some (''Code before await executes synchronously, just like normal.'')\<rparr>,
    (mkStep log)\<lparr>message := Some (''In async''),
       explanation := Some (''Output: In async'')\<rparr>,
    (mkStep removeFromStack)\<lparr>explanation := Some (''Console.log completes.'')\<rparr>,
    (mkStep addToStack)\<lparr>item := Some (''await Promise.resolve()''),
       execute := Some False,
       line := Some 5,
       explanation := Some (''await pauses execution! The function "yields" control back to the caller.'')\<rparr>,
    (mkStep addToMicroTask)\<lparr>item := Some (''Resume: After await''),
       explanation := Some (''The continuation (code after await) is scheduled as a microtask.'')\<rparr>,
    (mkStep removeFromStack)\<lparr>explanation := Some (''await causes the function to return to caller.'')\<rparr>,
    (mkStep removeFromStack)\<lparr>explanation := Some (''getData() call completes (returns a pending Promise).'')\<rparr>,
    (mkStep addToStack)\<lparr>item := Some (''console.log("After call")''),
       execute := Some True,
       line := Some 10,
       explanation := Some (''Code continues executing while await is waiting!'')\<rparr>,
    (mkStep log)\<lparr>message := Some (''After call''),
       explanation := Some (''Output: After call. This runs before "After await"!'')\<rparr>,
    (mkStep removeFromStack)\<lparr>explanation := Some (''All sync code done. Now microtasks can run.'')\<rparr>,
    (mkStep processMicroTasks)\<lparr>line := Some 6,
       explanation := Some (''Event Loop processes microtasks. Time to resume the async function!'')\<rparr>,
    (mkStep addToStack)\<lparr>item := Some (''console.log("After await")''),
       execute := Some True,
       line := Some 6,
       explanation := Some (''Async function resumes after the await. data variable now has the resolved value.'')\<rparr>,
    (mkStep log)\<lparr>message := Some (''After await''),
       explanation := Some (''Output: After await. Key learning: await = "pause and come back later"'')\<rparr>,
    (mkStep removeFromStack)\<lparr>explanation := Some (''Async function completes. Order: Before async '' @ [CHR 0xC3, CHR 0xA2, CHR 0xE2, CHR 0x80, CHR 0xA0, CHR 0xE2, CHR 0x80, CHR 0x99] @ '' In async '' @ [CHR 0xC3, CHR 0xA2, CHR 0xE2, CHR 0x80, CHR 0xA0, CHR 0xE2, CHR 0x80, CHR 0x99] @ '' After call '' @ [CHR 0xC3, CHR 0xA2, CHR 0xE2, CHR 0x80, CHR 0xA0, CHR 0xE2, CHR 0x80, CHR 0x99] @ '' After await'')\<rparr>
  ]\<close>

definition multiplePromises_steps :: "Step list" where
  \<open>multiplePromises_steps = [
    (mkStep addToStack)\<lparr>item := Some (''console.log("Start")''),
       execute := Some True,
       line := Some 1,
       explanation := Some (''Starting execution with synchronous code.'')\<rparr>,
    (mkStep log)\<lparr>message := Some (''Start''),
       explanation := Some (''Output: Start'')\<rparr>,
    (mkStep removeFromStack)\<lparr>explanation := Some (''Removed from stack.'')\<rparr>,
    (mkStep addToStack)\<lparr>item := Some (''Promise.resolve()''),
       execute := Some False,
       line := Some 3,
       explanation := Some (''First promise chain starts. Promise.resolve() creates an immediately resolved promise.'')\<rparr>,
    (mkStep addToMicroTask)\<lparr>item := Some (''console.log("Promise 1")''),
       explanation := Some (''First .then() callback queued to Microtask Queue.'')\<rparr>,
    (mkStep removeFromStack)\<lparr>explanation := Some (''Promise registration completes.'')\<rparr>,
    (mkStep addToStack)\<lparr>item := Some (''Promise.resolve()''),
       execute := Some False,
       line := Some 7,
       explanation := Some (''Second independent promise chain starts.'')\<rparr>,
    (mkStep addToMicroTask)\<lparr>item := Some (''console.log("Promise 3")''),
       explanation := Some (''This .then() callback also queued to Microtask Queue.'')\<rparr>,
    (mkStep removeFromStack)\<lparr>explanation := Some (''Second promise registered.'')\<rparr>,
    (mkStep addToStack)\<lparr>item := Some (''console.log("End")''),
       execute := Some True,
       line := Some 10,
       explanation := Some (''Final synchronous statement.'')\<rparr>,
    (mkStep log)\<lparr>message := Some (''End''),
       explanation := Some (''Output: End. All sync code done!'')\<rparr>,
    (mkStep removeFromStack)\<lparr>explanation := Some (''Stack empty. Event Loop will now process microtasks.'')\<rparr>,
    (mkStep processMicroTasks)\<lparr>line := Some 4,
       explanation := Some (''Processing first microtask: "Promise 1" callback.'')\<rparr>,
    (mkStep addToStack)\<lparr>item := Some (''console.log("Promise 1")''),
       execute := Some True,
       line := Some 4,
       explanation := Some (''First promise callback executes.'')\<rparr>,
    (mkStep log)\<lparr>message := Some (''Promise 1''),
       explanation := Some (''Output: Promise 1'')\<rparr>,
    (mkStep removeFromStack)\<lparr>explanation := Some (''Callback completes. The .then() returns a new promise!'')\<rparr>,
    (mkStep addToMicroTask)\<lparr>item := Some (''console.log("Promise 2")''),
       explanation := Some (''Chained .then() creates another microtask. Added to the end of Microtask Queue.'')\<rparr>,
    (mkStep processMicroTasks)\<lparr>line := Some 8,
       explanation := Some (''Processing next microtask: "Promise 3" callback (was already queued).'')\<rparr>,
    (mkStep addToStack)\<lparr>item := Some (''console.log("Promise 3")''),
       execute := Some True,
       line := Some 8,
       explanation := Some (''Second promise chain'' @ [CHR 0x27] @ ''s callback executes.'')\<rparr>,
    (mkStep log)\<lparr>message := Some (''Promise 3''),
       explanation := Some (''Output: Promise 3'')\<rparr>,
    (mkStep removeFromStack)\<lparr>explanation := Some (''Second chain'' @ [CHR 0x27] @ ''s first callback done.'')\<rparr>,
    (mkStep processMicroTasks)\<lparr>line := Some 5,
       explanation := Some (''Processing the chained callback from first promise.'')\<rparr>,
    (mkStep addToStack)\<lparr>item := Some (''console.log("Promise 2")''),
       execute := Some True,
       line := Some 5,
       explanation := Some (''Final callback from the first promise chain.'')\<rparr>,
    (mkStep log)\<lparr>message := Some (''Promise 2''),
       explanation := Some (''Output: Promise 2. Order: Start '' @ [CHR 0xC3, CHR 0xA2, CHR 0xE2, CHR 0x80, CHR 0xA0, CHR 0xE2, CHR 0x80, CHR 0x99] @ '' End '' @ [CHR 0xC3, CHR 0xA2, CHR 0xE2, CHR 0x80, CHR 0xA0, CHR 0xE2, CHR 0x80, CHR 0x99] @ '' Promise 1 '' @ [CHR 0xC3, CHR 0xA2, CHR 0xE2, CHR 0x80, CHR 0xA0, CHR 0xE2, CHR 0x80, CHR 0x99] @ '' Promise 3 '' @ [CHR 0xC3, CHR 0xA2, CHR 0xE2, CHR 0x80, CHR 0xA0, CHR 0xE2, CHR 0x80, CHR 0x99] @ '' Promise 2'')\<rparr>,
    (mkStep removeFromStack)\<lparr>explanation := Some (''All done! Notice how chained promises queue new microtasks.'')\<rparr>
  ]\<close>

definition eventListener_steps :: "Step list" where
  \<open>eventListener_steps = [
    (mkStep addToStack)\<lparr>item := Some (''console.log("Setup")''),
       execute := Some True,
       line := Some 1,
       explanation := Some (''Starting to set up event listeners.'')\<rparr>,
    (mkStep log)\<lparr>message := Some (''Setup''),
       explanation := Some (''Output: Setup'')\<rparr>,
    (mkStep removeFromStack)\<lparr>explanation := Some (''Console.log completes.'')\<rparr>,
    (mkStep addToStack)\<lparr>item := Some (''addEventListener("click", cb)''),
       execute := Some False,
       line := Some 3,
       explanation := Some (''Registering a click event listener. The callback is stored but NOT executed yet.'')\<rparr>,
    (mkStep addToWebAPI)\<lparr>item := Some (''Event: click listener''),
       callback := Some (''click handler''),
       explanation := Some (''Browser registers the event listener. It will trigger when the user clicks the button.'')\<rparr>,
    (mkStep removeFromStack)\<lparr>explanation := Some (''Event listener registration complete.'')\<rparr>,
    (mkStep addToStack)\<lparr>item := Some (''console.log("Ready")''),
       execute := Some True,
       line := Some 10,
       explanation := Some (''Synchronous code continues executing.'')\<rparr>,
    (mkStep log)\<lparr>message := Some (''Ready''),
       explanation := Some (''Output: Ready. Now waiting for user interaction...'')\<rparr>,
    (mkStep removeFromStack)\<lparr>explanation := Some (''All setup code complete. Application is now idle, waiting for events.'')\<rparr>,
    (mkStep moveToTaskQueue)\<lparr>from_api := Some (''webAPI''),
       callback := Some (''click handler''),
       line := Some 4,
       explanation := Some ([CHR 0xC3, CHR 0xB0, CHR 0xC5, CHR 0xB8, CHR 0xE2, CHR 0x80, CHR 0x93, CHR 0xC2, CHR 0xB1, CHR 0xC3, CHR 0xAF, CHR 0xC2, CHR 0xB8] @ '' User clicks the button! Event handler is queued as a Task.'')\<rparr>,
    (mkStep checkEventLoop)\<lparr>explanation := Some (''Event Loop picks up the click event from Task Queue.'')\<rparr>,
    (mkStep addToStack)\<lparr>item := Some (''console.log("Button clicked")''),
       execute := Some True,
       line := Some 4,
       explanation := Some (''Click handler executes. First line in the callback runs.'')\<rparr>,
    (mkStep log)\<lparr>message := Some (''Button clicked''),
       explanation := Some (''Output: Button clicked'')\<rparr>,
    (mkStep removeFromStack)\<lparr>explanation := Some (''Console.log completes.'')\<rparr>,
    (mkStep addToStack)\<lparr>item := Some (''Promise.resolve()''),
       execute := Some False,
       line := Some 5,
       explanation := Some (''Promise created inside the event handler.'')\<rparr>,
    (mkStep addToMicroTask)\<lparr>item := Some (''console.log("After click")''),
       explanation := Some (''Promise callback queued as microtask. Will run after current task completes.'')\<rparr>,
    (mkStep removeFromStack)\<lparr>explanation := Some (''Promise setup done.'')\<rparr>,
    (mkStep removeFromStack)\<lparr>explanation := Some (''Click handler completes. Now Event Loop processes microtasks before next task.'')\<rparr>,
    (mkStep processMicroTasks)\<lparr>line := Some 6,
       explanation := Some (''Microtasks run immediately after the task completes (before rendering!)'')\<rparr>,
    (mkStep addToStack)\<lparr>item := Some (''console.log("After click")''),
       execute := Some True,
       line := Some 6,
       explanation := Some (''Promise callback from the click handler executes.'')\<rparr>,
    (mkStep log)\<lparr>message := Some (''After click''),
       explanation := Some (''Output: After click. Event handling complete!'')\<rparr>,
    (mkStep removeFromStack)\<lparr>explanation := Some (''Done! Key learning: Event handlers are Tasks, but can create Microtasks inside them.'')\<rparr>
  ]\<close>

definition apiError_steps :: "Step list" where
  \<open>apiError_steps = [
    (mkStep addToStack)\<lparr>item := Some (''console.log("Fetching user")''),
       execute := Some True,
       line := Some 1,
       explanation := Some (''Starting an async operation with error handling.'')\<rparr>,
    (mkStep log)\<lparr>message := Some (''Fetching user''),
       explanation := Some (''Output: Fetching user'')\<rparr>,
    (mkStep removeFromStack)\<lparr>explanation := Some (''Console.log completes.'')\<rparr>,
    (mkStep addToStack)\<lparr>item := Some (''getUser()''),
       execute := Some False,
       line := Some 12,
       explanation := Some (''Calling the async function. Remember: async functions return immediately with a Promise!'')\<rparr>,
    (mkStep addToStack)\<lparr>item := Some (''await fetch("/user")''),
       execute := Some False,
       line := Some 5,
       explanation := Some (''fetch() starts the network request. await pauses the function execution.'')\<rparr>,
    (mkStep addToWebAPI)\<lparr>item := Some (''Fetch: /user''),
       callback := Some (''Resume getUser''),
       explanation := Some (''Network request handled by browser APIs. Function paused at await.'')\<rparr>,
    (mkStep removeFromStack)\<lparr>explanation := Some (''await causes function to yield. Execution continues outside the function.'')\<rparr>,
    (mkStep removeFromStack)\<lparr>explanation := Some (''getUser() returns to caller (returns pending Promise).'')\<rparr>,
    (mkStep addToStack)\<lparr>item := Some (''console.log("Request sent")''),
       execute := Some True,
       line := Some 13,
       explanation := Some (''Code after function call executes while fetch is in progress!'')\<rparr>,
    (mkStep log)\<lparr>message := Some (''Request sent''),
       explanation := Some (''Output: Request sent. Non-blocking async in action!'')\<rparr>,
    (mkStep removeFromStack)\<lparr>explanation := Some (''All sync code done. Now waiting for fetch to complete...'')\<rparr>,
    (mkStep moveToTaskQueue)\<lparr>from_api := Some (''webAPI''),
       callback := Some (''Resume getUser''),
       line := Some 5,
       explanation := Some ([CHR 0xC3, CHR 0xA2, CHR 0xC5, CHR 0x92] @ '' Fetch fails (network error, 404, etc). The promise REJECTS.'')\<rparr>,
    (mkStep addToMicroTask)\<lparr>item := Some (''catch(error)''),
       explanation := Some (''Rejection triggers the catch block! This is queued as a microtask.'')\<rparr>,
    (mkStep processMicroTasks)\<lparr>line := Some 8,
       explanation := Some (''Processing the error handler microtask.'')\<rparr>,
    (mkStep addToStack)\<lparr>item := Some (''console.log("Error caught")''),
       execute := Some True,
       line := Some 8,
       explanation := Some (''Catch block executes. The try-catch successfully handled the error!'')\<rparr>,
    (mkStep log)\<lparr>message := Some (''Error caught''),
       explanation := Some (''Output: Error caught. Error handled gracefully without crashing!'')\<rparr>,
    (mkStep removeFromStack)\<lparr>explanation := Some (''Error handling complete. Key: await errors are caught by try-catch!'')\<rparr>
  ]\<close>

definition debounce_steps :: "Step list" where
  \<open>debounce_steps = [
    (mkStep addToStack)\<lparr>item := Some (''onSearch("H")''),
       execute := Some False,
       line := Some 10,
       explanation := Some (''User types "H". First keystroke triggers search function.'')\<rparr>,
    (mkStep addToStack)\<lparr>item := Some (''clearTimeout(timeout)''),
       execute := Some True,
       line := Some 4,
       explanation := Some (''Checking if there'' @ [CHR 0x27] @ ''s a pending timer. First call, so timeout is undefined - nothing to clear.'')\<rparr>,
    (mkStep removeFromStack)\<lparr>explanation := Some (''clearTimeout completes (no-op for undefined).'')\<rparr>,
    (mkStep addToStack)\<lparr>item := Some (''setTimeout(cb, 300)''),
       execute := Some False,
       line := Some 5,
       explanation := Some (''Starting a 300ms timer before executing the search.'')\<rparr>,
    (mkStep addToWebAPI)\<lparr>item := Some (''Timer: 300ms (H)''),
       callback := Some (''console.log("Search: H")''),
       explanation := Some (''Timer set for 300ms. If no more typing happens, it will execute the search.'')\<rparr>,
    (mkStep removeFromStack)\<lparr>explanation := Some (''setTimeout registration done.'')\<rparr>,
    (mkStep removeFromStack)\<lparr>explanation := Some (''First onSearch call complete. Timer is running...'')\<rparr>,
    (mkStep addToStack)\<lparr>item := Some (''onSearch("He")''),
       execute := Some False,
       line := Some 11,
       explanation := Some ([CHR 0xC3, CHR 0xA2, CHR 0xC5, CHR 0x92, CHR 0xC2, CHR 0xA8, CHR 0xC3, CHR 0xAF, CHR 0xC2, CHR 0xB8] @ '' User types "e" (only 50ms later). Second keystroke!'')\<rparr>,
    (mkStep addToStack)\<lparr>item := Some (''clearTimeout(timeout)''),
       execute := Some True,
       line := Some 4,
       explanation := Some (''CANCELING the previous timer! This prevents the "H" search from executing.'')\<rparr>,
    (mkStep removeFromStack)\<lparr>explanation := Some (''Previous timer cancelled. First search will never run!'')\<rparr>,
    (mkStep addToWebAPI)\<lparr>item := Some (''Timer: 300ms (He)''),
       callback := Some (''console.log("Search: He")''),
       explanation := Some (''New timer started for "He". Restarting the 300ms countdown.'')\<rparr>,
    (mkStep removeFromStack)\<lparr>explanation := Some (''Second onSearch complete.'')\<rparr>,
    (mkStep addToStack)\<lparr>item := Some (''onSearch("Hel")''),
       execute := Some False,
       line := Some 12,
       explanation := Some ([CHR 0xC3, CHR 0xA2, CHR 0xC5, CHR 0x92, CHR 0xC2, CHR 0xA8, CHR 0xC3, CHR 0xAF, CHR 0xC2, CHR 0xB8] @ '' User types "l" quickly. Third keystroke!'')\<rparr>,
    (mkStep addToStack)\<lparr>item := Some (''clearTimeout(timeout)''),
       execute := Some True,
       line := Some 4,
       explanation := Some (''CANCELING the "He" timer! Previous search prevented again.'')\<rparr>,
    (mkStep removeFromStack)\<lparr>explanation := Some (''Second timer cancelled. "He" search will never run!'')\<rparr>,
    (mkStep addToWebAPI)\<lparr>item := Some (''Timer: 300ms (Hel)''),
       callback := Some (''console.log("Search: Hel")''),
       explanation := Some (''Final timer for "Hel". If user stops typing, this will execute after 300ms.'')\<rparr>,
    (mkStep removeFromStack)\<lparr>explanation := Some (''Third onSearch complete.'')\<rparr>,
    (mkStep moveToTaskQueue)\<lparr>from_api := Some (''webAPI''),
       callback := Some (''console.log("Search: Hel")''),
       line := Some 6,
       explanation := Some ([CHR 0xC3, CHR 0xA2, CHR 0xC2, CHR 0xB1, CHR 0xC3, CHR 0xAF, CHR 0xC2, CHR 0xB8] @ '' 300ms passed with no more keystrokes. Timer completes and queues the callback.'')\<rparr>,
    (mkStep checkEventLoop)\<lparr>explanation := Some (''Event Loop picks up the search task.'')\<rparr>,
    (mkStep addToStack)\<lparr>item := Some (''console.log("Search: Hel")''),
       execute := Some True,
       line := Some 6,
       explanation := Some (''Finally executing the search! Only the last timer survived.'')\<rparr>,
    (mkStep log)\<lparr>message := Some (''Search: Hel''),
       explanation := Some (''Output: Search: Hel. Debouncing saved 2 unnecessary API calls! (H and He never searched)'')\<rparr>,
    (mkStep removeFromStack)\<lparr>explanation := Some (''Complete! This pattern is crucial for search boxes, resize handlers, and scroll events.'')\<rparr>
  ]\<close>

definition promiseRace_steps :: "Step list" where
  \<open>promiseRace_steps = [
    (mkStep addToStack)\<lparr>item := Some (''console.log("Start request")''),
       execute := Some True,
       line := Some 1,
       explanation := Some (''Starting a request with a timeout using Promise.race pattern.'')\<rparr>,
    (mkStep log)\<lparr>message := Some (''Start request''),
       explanation := Some (''Output: Start request'')\<rparr>,
    (mkStep removeFromStack)\<lparr>explanation := Some (''Console.log completes.'')\<rparr>,
    (mkStep addToStack)\<lparr>item := Some (''new Promise((_, reject)...)''),
       execute := Some False,
       line := Some 3,
       explanation := Some (''Creating a promise that will reject after 1000ms. This is our timeout mechanism.'')\<rparr>,
    (mkStep addToStack)\<lparr>item := Some (''setTimeout(cb, 1000)''),
       execute := Some False,
       line := Some 4,
       explanation := Some (''Setting up the timeout timer.'')\<rparr>,
    (mkStep addToWebAPI)\<lparr>item := Some (''Timer: 1000ms''),
       callback := Some (''reject("Timeout")''),
       explanation := Some (''Timeout timer registered. Will reject the promise if it fires.'')\<rparr>,
    (mkStep removeFromStack)\<lparr>explanation := Some (''setTimeout done.'')\<rparr>,
    (mkStep removeFromStack)\<lparr>explanation := Some (''Timeout promise created.'')\<rparr>,
    (mkStep addToStack)\<lparr>item := Some (''fetch("/slow-api")''),
       execute := Some False,
       line := Some 7,
       explanation := Some (''Starting the actual API request.'')\<rparr>,
    (mkStep addToWebAPI)\<lparr>item := Some (''Fetch: /slow-api''),
       callback := Some (''resolve(response)''),
       explanation := Some (''Network request in progress. Simulating a slow API.'')\<rparr>,
    (mkStep removeFromStack)\<lparr>explanation := Some (''Fetch initiated.'')\<rparr>,
    (mkStep addToStack)\<lparr>item := Some (''Promise.race([...])''),
       execute := Some False,
       line := Some 9,
       explanation := Some (''Promise.race returns as soon as the FIRST promise settles (resolves or rejects)!'')\<rparr>,
    (mkStep removeFromStack)\<lparr>explanation := Some (''Race setup complete. Now both promises are competing...'')\<rparr>,
    (mkStep addToStack)\<lparr>item := Some (''console.log("Racing...")''),
       execute := Some True,
       line := Some 13,
       explanation := Some (''Synchronous code continues while both async operations are in progress.'')\<rparr>,
    (mkStep log)\<lparr>message := Some (''Racing...''),
       explanation := Some (''Output: Racing... Both timeout and fetch are now racing!'')\<rparr>,
    (mkStep removeFromStack)\<lparr>explanation := Some (''All sync code done. Now we wait to see which promise wins...'')\<rparr>,
    (mkStep moveToTaskQueue)\<lparr>from_api := Some (''webAPI''),
       callback := Some (''reject("Timeout")''),
       line := Some 4,
       explanation := Some ([CHR 0xC3, CHR 0xA2, CHR 0xC2, CHR 0xB1, CHR 0xC3, CHR 0xAF, CHR 0xC2, CHR 0xB8] @ '' 1000ms elapsed! Timeout fires BEFORE the slow API responds. Timeout wins the race!'')\<rparr>,
    (mkStep addToMicroTask)\<lparr>item := Some (''catch(() => console.log("Failed"))''),
       explanation := Some (''Race promise rejected. The .catch() handler is queued.'')\<rparr>,
    (mkStep processMicroTasks)\<lparr>line := Some 11,
       explanation := Some (''Processing the rejection handler.'')\<rparr>,
    (mkStep addToStack)\<lparr>item := Some (''console.log("Failed")''),
       execute := Some True,
       line := Some 11,
       explanation := Some (''Catch handler executes. Request failed due to timeout!'')\<rparr>,
    (mkStep log)\<lparr>message := Some (''Failed''),
       explanation := Some (''Output: Failed. The slow API never got a chance to respond!'')\<rparr>,
    (mkStep removeFromStack)\<lparr>explanation := Some (''Done! Promise.race is perfect for implementing request timeouts.'')\<rparr>
  ]\<close>

definition requestAnimationFrame_steps :: "Step list" where
  \<open>requestAnimationFrame_steps = [
    (mkStep addToStack)\<lparr>item := Some (''console.log("Animation start")''),
       execute := Some True,
       line := Some 1,
       explanation := Some (''Starting an animation using requestAnimationFrame (RAF).'')\<rparr>,
    (mkStep log)\<lparr>message := Some (''Animation start''),
       explanation := Some (''Output: Animation start'')\<rparr>,
    (mkStep removeFromStack)\<lparr>explanation := Some (''Console.log completes.'')\<rparr>,
    (mkStep addToStack)\<lparr>item := Some (''requestAnimationFrame(animate)''),
       execute := Some False,
       line := Some 11,
       explanation := Some (''RAF schedules a callback to run before the next repaint (~60fps = every 16ms).'')\<rparr>,
    (mkStep addToWebAPI)\<lparr>item := Some (''RAF: animate (Frame 0)''),
       callback := Some (''animate()''),
       explanation := Some (''Browser schedules animate() to run before next paint. Different queue than setTimeout!'')\<rparr>,
    (mkStep removeFromStack)\<lparr>explanation := Some (''RAF registration complete.'')\<rparr>,
    (mkStep addToStack)\<lparr>item := Some (''console.log("Scheduled")''),
       execute := Some True,
       line := Some 12,
       explanation := Some (''Synchronous code continues immediately.'')\<rparr>,
    (mkStep log)\<lparr>message := Some (''Scheduled''),
       explanation := Some (''Output: Scheduled. Animation callback will run on next frame.'')\<rparr>,
    (mkStep removeFromStack)\<lparr>explanation := Some (''All sync code done. Browser will call our callback before painting...'')\<rparr>,
    (mkStep moveToTaskQueue)\<lparr>from_api := Some (''webAPI''),
       callback := Some (''animate()''),
       line := Some 4,
       explanation := Some ([CHR 0xC3, CHR 0xB0, CHR 0xC5, CHR 0xB8, CHR 0xC5, CHR 0xBD, CHR 0xC2, CHR 0xAC] @ '' Browser ready to paint! RAF callback fires (typically after ~16ms for 60fps).'')\<rparr>,
    (mkStep checkEventLoop)\<lparr>explanation := Some (''Event Loop executes the animation frame callback.'')\<rparr>,
    (mkStep addToStack)\<lparr>item := Some (''console.log("Frame 0")''),
       execute := Some True,
       line := Some 5,
       explanation := Some (''First frame renders. count is 0.'')\<rparr>,
    (mkStep log)\<lparr>message := Some (''Frame 0''),
       explanation := Some (''Output: Frame 0. First animation frame!'')\<rparr>,
    (mkStep removeFromStack)\<lparr>explanation := Some (''Console.log done.'')\<rparr>,
    (mkStep addToStack)\<lparr>item := Some (''requestAnimationFrame(animate)''),
       execute := Some False,
       line := Some 7,
       explanation := Some (''Scheduling the next frame. count is now 1.'')\<rparr>,
    (mkStep addToWebAPI)\<lparr>item := Some (''RAF: animate (Frame 1)''),
       callback := Some (''animate()''),
       explanation := Some (''Second frame scheduled.'')\<rparr>,
    (mkStep removeFromStack)\<lparr>explanation := Some (''RAF scheduled.'')\<rparr>,
    (mkStep moveToTaskQueue)\<lparr>from_api := Some (''webAPI''),
       callback := Some (''animate()''),
       line := Some 4,
       explanation := Some ([CHR 0xC3, CHR 0xB0, CHR 0xC5, CHR 0xB8, CHR 0xC5, CHR 0xBD, CHR 0xC2, CHR 0xAC] @ '' ~16ms later, next frame ready!'')\<rparr>,
    (mkStep checkEventLoop)\<lparr>explanation := Some (''Second frame callback executes.'')\<rparr>,
    (mkStep addToStack)\<lparr>item := Some (''console.log("Frame 1")''),
       execute := Some True,
       line := Some 5,
       explanation := Some (''Second frame renders. count is 1.'')\<rparr>,
    (mkStep log)\<lparr>message := Some (''Frame 1''),
       explanation := Some (''Output: Frame 1'')\<rparr>,
    (mkStep removeFromStack)\<lparr>explanation := Some (''Frame 1 done.'')\<rparr>,
    (mkStep addToStack)\<lparr>item := Some (''requestAnimationFrame(animate)''),
       execute := Some False,
       line := Some 7,
       explanation := Some (''Scheduling third and final frame. count is now 2.'')\<rparr>,
    (mkStep addToWebAPI)\<lparr>item := Some (''RAF: animate (Frame 2)''),
       callback := Some (''animate()''),
       explanation := Some (''Final frame scheduled.'')\<rparr>,
    (mkStep removeFromStack)\<lparr>explanation := Some (''RAF scheduled.'')\<rparr>,
    (mkStep moveToTaskQueue)\<lparr>from_api := Some (''webAPI''),
       callback := Some (''animate()''),
       line := Some 4,
       explanation := Some ([CHR 0xC3, CHR 0xB0, CHR 0xC5, CHR 0xB8, CHR 0xC5, CHR 0xBD, CHR 0xC2, CHR 0xAC] @ '' Third frame ready!'')\<rparr>,
    (mkStep checkEventLoop)\<lparr>explanation := Some (''Final frame callback executes.'')\<rparr>,
    (mkStep addToStack)\<lparr>item := Some (''console.log("Frame 2")''),
       execute := Some True,
       line := Some 5,
       explanation := Some (''Final frame renders. count is 2.'')\<rparr>,
    (mkStep log)\<lparr>message := Some (''Frame 2''),
       explanation := Some (''Output: Frame 2'')\<rparr>,
    (mkStep removeFromStack)\<lparr>explanation := Some (''Last frame complete.'')\<rparr>,
    (mkStep removeFromStack)\<lparr>explanation := Some (''Animation complete! RAF is ideal for smooth 60fps animations.'')\<rparr>
  ]\<close>


text \<open>
  \<^verbatim>\<open>allExamples\<close>: the static record of the authored examples together with the
  custom example held in component state.
\<close>

fun allExamples :: "Example \<Rightarrow> ExampleKey \<Rightarrow> Example" where
  \<open>allExamples cust basic = \<lparr>name = ''Basic Example'', description = ''Simple setTimeout and console.log'',
     code = basic_code, steps = basic_steps\<rparr>\<close>
| \<open>allExamples cust promise = \<lparr>name = ''Promises & Microtasks'', description = ''Shows microtask priority'',
     code = promise_code, steps = promise_steps\<rparr>\<close>
| \<open>allExamples cust advanced = \<lparr>name = ''Advanced Pattern'', description = ''Multiple async operations'',
     code = advanced_code, steps = advanced_steps\<rparr>\<close>
| \<open>allExamples cust fetch = \<lparr>name = ''Fetch API'', description = ''Async/await with fetch simulation'',
     code = fetch_code, steps = fetch_steps\<rparr>\<close>
| \<open>allExamples cust asyncAwait = \<lparr>name = ''Async/Await'', description = ''Modern async syntax'',
     code = asyncAwait_code, steps = asyncAwait_steps\<rparr>\<close>
| \<open>allExamples cust multiplePromises = \<lparr>name = ''Chained Promises'', description = ''Multiple promise chains'',
     code = multiplePromises_code, steps = multiplePromises_steps\<rparr>\<close>
| \<open>allExamples cust eventListener = \<lparr>name = ''Event Listeners'', description = ''Click event handling'',
     code = eventListener_code, steps = eventListener_steps\<rparr>\<close>
| \<open>allExamples cust apiError = \<lparr>name = ''API Error Handling'', description = ''Fetch with try-catch'',
     code = apiError_code, steps = apiError_steps\<rparr>\<close>
| \<open>allExamples cust debounce = \<lparr>name = ''Debounce Pattern'', description = ''Real-world search debouncing'',
     code = debounce_code, steps = debounce_steps\<rparr>\<close>
| \<open>allExamples cust promiseRace = \<lparr>name = ''Promise.race'', description = ''Timeout pattern with race'',
     code = promiseRace_code, steps = promiseRace_steps\<rparr>\<close>
| \<open>allExamples cust requestAnimationFrame = \<lparr>name = ''Animation Frame'', description = ''RAF for smooth animations'',
     code = requestAnimationFrame_code, steps = requestAnimationFrame_steps\<rparr>\<close>
| \<open>allExamples cust custom = cust\<close>

section \<open>String operations used by the compiler\<close>

text \<open>
  The JavaScript string methods that \<^verbatim>\<open>parseCustomCode\<close> calls. White space is the
  ASCII part of what \<^verbatim>\<open>trim\<close> and \<^verbatim>\<open>\s\<close> accept: tab, line feed, vertical tab,
  form feed, carriage return and space.
\<close>

definition isSpace :: "char \<Rightarrow> bool" where
  "isSpace c = (c \<in> set [CHR 0x09, CHR 0x0A, CHR 0x0B, CHR 0x0C, CHR 0x0D, CHR 0x20])"

definition trim :: "string \<Rightarrow> string" where
  "trim s = rev (dropWhile isSpace (rev (dropWhile isSpace s)))"

text \<open>\<^verbatim>\<open>s.split('\n')\<close>: the empty string splits into one empty line.\<close>

primrec splitLines :: "string \<Rightarrow> string list" where
  "splitLines [] = [[]]"
| "splitLines (c # cs) =
     (if c = newline then [] # splitLines cs
      else (case splitLines cs of [] \<Rightarrow> [[c]] | l # ls \<Rightarrow> (c # l) # ls))"

definition startsWith :: "string \<Rightarrow> string \<Rightarrow> bool" where
  "startsWith s p = (take (length p) s = p)"

primrec strIncludes :: "string \<Rightarrow> string \<Rightarrow> bool" where
  "strIncludes [] sub = (sub = [])"
| "strIncludes (c # cs) sub = (startsWith (c # cs) sub \<or> strIncludes cs sub)"

text \<open>
  \<^verbatim>\<open>countChar(value, char)\<close> builds the global pattern of the escaped character and
  counts its matches, which is the number of occurrences of the character.
\<close>

definition countChar :: "string \<Rightarrow> char \<Rightarrow> int" where
  "countChar v c = int (length (filter (\<lambda>x. x = c) v))"

text \<open>
  Numbers. A delay comes from \<^verbatim>\<open>parseInt\<close> of a non-empty digit string and is a
  natural number here; this is exact below \<open>2^53\<close>, where JavaScript numbers are exact
  integers. \<open>showNat\<close> is the decimal text that a template literal prints for it.
\<close>

definition digitChars :: string where
  "digitChars = ''0123456789''"

definition digitValue :: "char \<Rightarrow> nat" where
  "digitValue c = of_char c - of_char (CHR ''0'')"

definition parseInt :: "string \<Rightarrow> nat" where
  "parseInt ds = foldl (\<lambda>n c. 10 * n + digitValue c) 0 ds"

fun showNat :: "nat \<Rightarrow> string" where
  "showNat n = (if n < 10 then [digitChars ! n] else showNat (n div 10) @ [digitChars ! (n mod 10)])"

section \<open>The regular expressions of the compiler\<close>

text \<open>
  Every pattern of \<^verbatim>\<open>parseCustomCode\<close> is a sequence of literal text, single
  character classes, greedy \<^verbatim>\<open>*\<close> or \<^verbatim>\<open>+\<close> over one character class, and one
  capture group around such a \<^verbatim>\<open>+\<close>. The matcher below is the backtracking search of
  the JavaScript engine restricted to that shape: \<open>rxStep\<close> lists the ways one element
  can match at the front of the input in the engine's order of preference (a greedy
  quantifier tries the longest run first), \<open>rxSeq\<close> chains the elements, and
  \<open>rxMatch\<close> takes the first success at the leftmost start position. The result is the
  text of capture group 1.
\<close>

datatype atom = OneOf string | NoneOf string | Space | Digit | AnyChar

datatype rx = Lit string | One atom | Star atom | Plus atom | Group rx

text \<open>\<^verbatim>\<open>.\<close> matches every character except a line terminator.\<close>

fun atomMatch :: "atom \<Rightarrow> char \<Rightarrow> bool" where
  "atomMatch (OneOf cs) c = (c \<in> set cs)"
| "atomMatch (NoneOf cs) c = (c \<notin> set cs)"
| "atomMatch Space c = isSpace c"
| "atomMatch Digit c = (c \<in> set digitChars)"
| "atomMatch AnyChar c = (c \<notin> set [CHR 0x0A, CHR 0x0D])"

type_synonym rxState = "string \<times> string"

primrec rxStep :: "rx \<Rightarrow> rxState \<Rightarrow> rxState list" where
  "rxStep (Lit l) st =
     (if startsWith (fst st) l then [(drop (length l) (fst st), snd st)] else [])"
| "rxStep (One a) st =
     (case fst st of [] \<Rightarrow> [] | c # cs \<Rightarrow> (if atomMatch a c then [(cs, snd st)] else []))"
| "rxStep (Star a) st =
     map (\<lambda>k. (drop k (fst st), snd st))
         (rev [0 ..< Suc (length (takeWhile (atomMatch a) (fst st)))])"
| "rxStep (Plus a) st =
     map (\<lambda>k. (drop k (fst st), snd st))
         (rev [1 ..< Suc (length (takeWhile (atomMatch a) (fst st)))])"
| "rxStep (Group r) st =
     map (\<lambda>st'. (fst st', take (length (fst st) - length (fst st')) (fst st))) (rxStep r st)"

primrec rxSeq :: "rx list \<Rightarrow> rxState \<Rightarrow> rxState list" where
  "rxSeq [] st = [st]"
| "rxSeq (r # rs) st = concat (map (rxSeq rs) (rxStep r st))"

definition rxAt :: "rx list \<Rightarrow> string \<Rightarrow> string option" where
  "rxAt rs s = (case rxSeq rs (s, []) of [] \<Rightarrow> None | st # _ \<Rightarrow> Some (snd st))"

primrec rxMatch :: "rx list \<Rightarrow> string \<Rightarrow> string option" where
  "rxMatch rs [] = rxAt rs []"
| "rxMatch rs (c # cs) =
     (case rxAt rs (c # cs) of Some g \<Rightarrow> Some g | None \<Rightarrow> rxMatch rs cs)"

definition quote :: atom where
  \<open>quote = OneOf [CHR 0x27, CHR 0x22]\<close>

definition notQuote :: atom where
  \<open>notQuote = NoneOf [CHR 0x27, CHR 0x22]\<close>

text \<open>\<^verbatim>\<open>/console\.log\(\s*['"]([^'"]+)['"]\s*\)/\<close>\<close>

definition simpleRx :: "rx list" where
  "simpleRx = [Lit ''console.log('', Star Space, One quote, Group (Plus notQuote), One quote,
               Star Space, Lit '')'']"

text \<open>\<^verbatim>\<open>/console\.log\(\s*['"]([^'"]+)['"]/\<close>\<close>

definition mixedRx :: "rx list" where
  "mixedRx = [Lit ''console.log('', Star Space, One quote, Group (Plus notQuote), One quote]"

text \<open>\<^verbatim>\<open>/console\.error\(\s*['"]([^'"]+)['"]/\<close>\<close>

definition errorRx :: "rx list" where
  "errorRx = [Lit ''console.error('', Star Space, One quote, Group (Plus notQuote), One quote]"

text \<open>\<^verbatim>\<open>/setTimeout\(.+,\s*(\d+)\)/\<close>\<close>

definition delayRx :: "rx list" where
  "delayRx = [Lit ''setTimeout('', Plus AnyChar, Lit '','', Star Space, Group (Plus Digit),
              Lit '')'']"

text \<open>\<^verbatim>\<open>/console\.log\(['"](.+)['"]\)/\<close>\<close>

definition callbackRx :: "rx list" where
  "callbackRx = [Lit ''console.log('', One quote, Group (Plus AnyChar), One quote, Lit '')'']"

text \<open>\<^verbatim>\<open>/fetch\(\s*['"]([^'"]+)['"]\s*\)/\<close>\<close>

definition urlRx :: "rx list" where
  "urlRx = [Lit ''fetch('', Star Space, One quote, Group (Plus notQuote), One quote,
            Star Space, Lit '')'']"

section \<open>The compiler: parseCustomCode and runCustomCode\<close>

definition extractLogMessage :: "string \<Rightarrow> string" where
  "extractLogMessage ln =
     (case rxMatch simpleRx ln of
        Some g \<Rightarrow> g
      | None \<Rightarrow>
         (case rxMatch mixedRx ln of
            Some g \<Rightarrow> g @ '' [data]''
          | None \<Rightarrow>
             (case rxMatch errorRx ln of
                Some g \<Rightarrow> ''Error: '' @ g
              | None \<Rightarrow> ''output'')))"

text \<open>The bytes that the source file holds where an arrow glyph was meant.\<close>

definition arrow :: string where
  "arrow = [CHR 0xC3, CHR 0xA2, CHR 0xE2, CHR 0x80, CHR 0xA0, CHR 0xE2, CHR 0x80, CHR 0x99]"

definition logCall :: "string \<Rightarrow> string" where
  \<open>logCall m = ''console.log("'' @ m @ ''")''\<close>

definition ellipsis :: "nat \<Rightarrow> string \<Rightarrow> string" where
  "ellipsis n s = take n s @ (if length s > n then ''...'' else '''')"

subsection \<open>Fetch mode\<close>

text \<open>
  The loop over \<^verbatim>\<open>fullCode.matchAll(...)\<close> fills \<^verbatim>\<open>thenCallbacks\<close>, which is never
  read afterwards; it has no effect on the steps and is not modelled.
\<close>

record syncLog =
  sl_line :: nat
  sl_message :: string

definition syncLogs :: "string list \<Rightarrow> syncLog list" where
  "syncLogs lns =
     concat (map (\<lambda>(index, ln).
        (let trimmed = trim ln
         in if startsWith trimmed ''console.log'' \<and> \<not> strIncludes trimmed ''.then''
               \<and> \<not> strIncludes trimmed ''=>''
            then [\<lparr>sl_line = index + 1, sl_message = extractLogMessage trimmed\<rparr>]
            else [])) (enumerate 0 lns))"

definition syncLogSteps :: "syncLog \<Rightarrow> Step list" where
  "syncLogSteps lg =
     [(mkStep addToStack)\<lparr>item := Some (logCall (sl_message lg)), execute := Some True,
         line := Some (sl_line lg),
         explanation := Some ''Synchronous code executes immediately while fetch is pending''\<rparr>,
      (mkStep log)\<lparr>message := Some (sl_message lg),
         explanation := Some (''Output: '' @ sl_message lg)\<rparr>,
      (mkStep removeFromStack)\<lparr>explanation := Some ''console.log complete''\<rparr>]"

definition fetchHead :: "string \<Rightarrow> Step list" where
  \<open>fetchHead url =
     [(mkStep addToStack)\<lparr>item := Some (''fetch("'' @ ellipsis 30 url @ ''")''),
         execute := Some False, line := Some 1,
         explanation := Some (''Initiating fetch request to '' @ ellipsis 50 url)\<rparr>,
      (mkStep addToWebAPI)\<lparr>item := Some (''fetch() '' @ arrow @ '' Pending...''),
         callback := Some ''.then() callbacks'',
         explanation := Some ''Fetch request is handled by Web APIs (browser makes HTTP request)''\<rparr>,
      (mkStep removeFromStack)\<lparr>explanation :=
         Some ''fetch() returns immediately with a Promise, continues to next line''\<rparr>]\<close>

definition fetchTail :: "Step list" where
  \<open>fetchTail =
     [(mkStep moveToTaskQueue)\<lparr>from_api := Some ''webAPI'',
         callback := Some ''response => response.json()'',
         explanation := Some ''Fetch completed! First .then() callback added to Microtask Queue''\<rparr>,
      (mkStep addToMicroTask)\<lparr>item := Some ''response.json()'',
         explanation := Some ''response.json() returns another Promise (also async!)''\<rparr>,
      (mkStep checkEventLoop)\<lparr>explanation :=
         Some (''Call Stack empty '' @ arrow @ '' Event Loop processes Microtask Queue'')\<rparr>,
      (mkStep processMicroTasks)\<lparr>explanation :=
         Some ''Processing microtasks (Promises have high priority!)''\<rparr>,
      (mkStep addToStack)\<lparr>item := Some ''response.json()'', execute := Some True,
         line := Some 2, explanation := Some ''Parsing JSON response''\<rparr>,
      (mkStep removeFromStack)\<lparr>explanation :=
         Some ''JSON parsing complete, queues next .then()''\<rparr>,
      (mkStep addToMicroTask)\<lparr>item := Some ''data => console.log(...)'',
         explanation := Some ''Next .then() callback added to Microtask Queue''\<rparr>,
      (mkStep processMicroTasks)\<lparr>explanation := Some ''Processing next microtask''\<rparr>,
      (mkStep addToStack)\<lparr>item := Some ''console.log("Data received:", data)'',
         execute := Some True, line := Some 3,
         explanation := Some ''Executing callback with the fetched data''\<rparr>,
      (mkStep log)\<lparr>message :=
         Some ''Data received: { userId: 1, id: 1, title: "...", completed: false }'',
         explanation := Some ''Data from API is now available!''\<rparr>,
      (mkStep removeFromStack)\<lparr>explanation := Some ''All callbacks complete!''\<rparr>]\<close>

definition fetchSteps :: "string \<Rightarrow> string list \<Rightarrow> Step list" where
  "fetchSteps fullCode lns =
     (let url = (case rxMatch urlRx fullCode of Some u \<Rightarrow> u | None \<Rightarrow> ''API endpoint'')
      in fetchHead url @ concat (map syncLogSteps (syncLogs lns)) @ fetchTail)"

subsection \<open>Line-scan mode\<close>

datatype kind = task | microtask

record pendingTask =
  t_line :: nat
  t_delay :: nat
  t_callback :: string
  t_messages :: "string list"

record pendingMicrotask =
  m_line :: nat
  m_callback :: string
  m_messages :: "string list"

record activeCallback =
  a_kind :: kind
  a_line :: nat
  a_delay :: nat
  a_messages :: "string list"
  a_callback :: string

record scan =
  scanSteps :: "Step list"
  pendingTasks :: "pendingTask list"
  pendingMicrotasks :: "pendingMicrotask list"
  active :: "activeCallback option"
  callbackDepth :: int

definition scanStart :: scan where
  "scanStart = \<lparr>scanSteps = [], pendingTasks = [], pendingMicrotasks = [], active = None,
     callbackDepth = 0\<rparr>"

definition isLogLine :: "string \<Rightarrow> bool" where
  "isLogLine t = (strIncludes t ''console.log'' \<or> strIncludes t ''console.error'')"

definition braceBalance :: "string \<Rightarrow> int" where
  "braceBalance t = countChar t (CHR ''{'') - countChar t (CHR ''}'')"

text \<open>
  A finished registration is pushed to the bucket of its kind. Closing the callback under
  collection pushes it and clears the cursor.
\<close>

definition pushPending :: "activeCallback \<Rightarrow> scan \<Rightarrow> scan" where
  "pushPending a st =
     (case a_kind a of
        task \<Rightarrow>
          st\<lparr>pendingTasks := pendingTasks st @
                [\<lparr>t_line = a_line a, t_delay = a_delay a, t_callback = a_callback a,
                  t_messages = a_messages a\<rparr>]\<rparr>
      | microtask \<Rightarrow>
          st\<lparr>pendingMicrotasks := pendingMicrotasks st @
                [\<lparr>m_line = a_line a, m_callback = a_callback a, m_messages = a_messages a\<rparr>]\<rparr>)"

definition closeCallback :: "activeCallback \<Rightarrow> scan \<Rightarrow> scan" where
  "closeCallback a st = (pushPending a st)\<lparr>active := None, callbackDepth := 0\<rparr>"

text \<open>A line read while a callback body is being collected.\<close>

definition insideCallback :: "string \<Rightarrow> activeCallback \<Rightarrow> scan \<Rightarrow> scan" where
  "insideCallback trimmedLine a st =
     (let a1 = (if isLogLine trimmedLine
                then a\<lparr>a_messages := a_messages a @ [extractLogMessage trimmedLine]\<rparr> else a);
          depth = callbackDepth st + countChar trimmedLine (CHR ''{'')
                    - countChar trimmedLine (CHR ''}'')
      in if depth \<le> 0 then closeCallback a1 st
         else st\<lparr>active := Some a1, callbackDepth := depth\<rparr>)"

definition logLineSteps :: "string \<Rightarrow> nat \<Rightarrow> Step list" where
  "logLineSteps trimmedLine lineNum =
     (let msg = extractLogMessage trimmedLine
      in [(mkStep addToStack)\<lparr>item := Some (ellipsis 50 trimmedLine), execute := Some True,
             line := Some lineNum, explanation := Some (''Executing: '' @ trimmedLine)\<rparr>,
          (mkStep log)\<lparr>message := Some msg, explanation := Some (''Output: '' @ msg)\<rparr>,
          (mkStep removeFromStack)\<lparr>explanation := Some ''Removed from call stack''\<rparr>])"

definition timerSteps :: "nat \<Rightarrow> string \<Rightarrow> nat \<Rightarrow> Step list" where
  "timerSteps delay cb lineNum =
     [(mkStep addToStack)\<lparr>item := Some (''setTimeout(cb, '' @ showNat delay @ '')''),
         execute := Some False, line := Some lineNum,
         explanation := Some (''Registering setTimeout with '' @ showNat delay @ ''ms delay'')\<rparr>,
      (mkStep addToWebAPI)\<lparr>item := Some (''Timer: '' @ showNat delay @ ''ms''),
         callback := Some cb, explanation := Some ''Timer started in Web APIs''\<rparr>,
      (mkStep removeFromStack)\<lparr>explanation := Some ''setTimeout registration complete''\<rparr>]"

definition promiseSteps :: "string \<Rightarrow> nat \<Rightarrow> Step list" where
  "promiseSteps cb lineNum =
     [(mkStep addToStack)\<lparr>item := Some ''Promise.resolve()'', execute := Some False,
         line := Some lineNum, explanation := Some ''Creating resolved Promise''\<rparr>,
      (mkStep addToMicroTask)\<lparr>item := Some cb,
         explanation := Some ''Promise callback added to Microtask Queue (high priority!)''\<rparr>,
      (mkStep removeFromStack)\<lparr>explanation := Some ''Promise setup complete''\<rparr>]"

text \<open>
  Opening a callback: a line with an opening brace starts collecting a body, unless the
  braces of the line already balance; a line without one registers the callback at once.
\<close>

definition openCallback ::
  "kind \<Rightarrow> string \<Rightarrow> nat \<Rightarrow> nat \<Rightarrow> string \<Rightarrow> string option \<Rightarrow> scan \<Rightarrow> scan" where
  "openCallback k trimmedLine lineNum delay cb callbackMatch st =
     (let msgs = (case callbackMatch of Some g \<Rightarrow> [g] | None \<Rightarrow> []);
          a = \<lparr>a_kind = k, a_line = lineNum, a_delay = delay, a_messages = msgs,
               a_callback = cb\<rparr>
      in if strIncludes trimmedLine ''{''
         then (if braceBalance trimmedLine \<le> 0 then closeCallback a st
               else st\<lparr>active := Some a, callbackDepth := braceBalance trimmedLine\<rparr>)
         else pushPending a st)"

definition topLevelLine :: "string \<Rightarrow> nat \<Rightarrow> scan \<Rightarrow> scan" where
  "topLevelLine trimmedLine lineNum st =
     (if trimmedLine = [] \<or> startsWith trimmedLine ''//'' then st
      else if isLogLine trimmedLine
      then st\<lparr>scanSteps := scanSteps st @ logLineSteps trimmedLine lineNum\<rparr>
      else if strIncludes trimmedLine ''setTimeout''
      then (let delay = (case rxMatch delayRx trimmedLine of
                           Some d \<Rightarrow> parseInt d | None \<Rightarrow> 0);
                callbackMatch = rxMatch callbackRx trimmedLine;
                cb = (case callbackMatch of
                        Some g \<Rightarrow> logCall g | None \<Rightarrow> ''setTimeout callback'')
            in openCallback task trimmedLine lineNum delay cb callbackMatch
                 (st\<lparr>scanSteps := scanSteps st @ timerSteps delay cb lineNum\<rparr>))
      else if strIncludes trimmedLine ''Promise.resolve()'' \<and> strIncludes trimmedLine ''.then''
      then (let callbackMatch = rxMatch callbackRx trimmedLine;
                cb = (case callbackMatch of
                        Some g \<Rightarrow> logCall g | None \<Rightarrow> ''promise callback'')
            in openCallback microtask trimmedLine lineNum 0 cb callbackMatch
                 (st\<lparr>scanSteps := scanSteps st @ promiseSteps cb lineNum\<rparr>))
      else st)"

definition scanLine :: "nat \<times> string \<Rightarrow> scan \<Rightarrow> scan" where
  "scanLine il st =
     (let trimmedLine = trim (snd il); lineNum = fst il + 1
      in case active st of
           Some a \<Rightarrow> insideCallback trimmedLine a st
         | None \<Rightarrow> topLevelLine trimmedLine lineNum st)"

definition scanLines :: "string list \<Rightarrow> scan" where
  "scanLines lns = foldl (\<lambda>st il. scanLine il st) scanStart (enumerate 0 lns)"

subsection \<open>Emission after the scan\<close>

definition microtaskRun :: "pendingMicrotask \<Rightarrow> Step list" where
  "microtaskRun t =
     (if m_messages t = []
      then [(mkStep addToStack)\<lparr>item := Some (m_callback t), execute := Some True,
               line := Some (m_line t),
               explanation := Some (''Executing microtask: '' @ m_callback t)\<rparr>,
            (mkStep removeFromStack)\<lparr>explanation := Some ''Microtask complete''\<rparr>]
      else concat (map (\<lambda>m.
             [(mkStep addToStack)\<lparr>item := Some (logCall m), execute := Some True,
                 line := Some (m_line t),
                 explanation := Some (''Executing microtask: '' @ logCall m)\<rparr>,
              (mkStep log)\<lparr>message := Some m, explanation := Some (''Output: '' @ m)\<rparr>,
              (mkStep removeFromStack)\<lparr>explanation := Some ''Microtask complete''\<rparr>])
            (m_messages t)))"

definition microtaskEmission :: "pendingMicrotask list \<Rightarrow> Step list" where
  "microtaskEmission pms =
     (if length pms > 0
      then [(mkStep checkEventLoop)\<lparr>explanation :=
               Some (''Call Stack empty '' @ arrow @ '' Event Loop processes Microtask Queue first'')\<rparr>,
            (mkStep processMicroTasks)\<lparr>explanation :=
               Some ''Processing microtasks (Promises have higher priority)''\<rparr>]
           @ concat (map microtaskRun pms)
      else [])"

text \<open>
  \<^verbatim>\<open>[...pendingTasks].sort((a, b) => a.delay - b.delay || a.line - b.line)\<close>. The
  comparator is the delay difference, or the line difference when the delays are equal.
  The sort of the engine is stable; it is modelled by a stable insertion sort driven by
  the comparator.
\<close>

definition compareTasks :: "pendingTask \<Rightarrow> pendingTask \<Rightarrow> int" where
  "compareTasks a b =
     (if int (t_delay a) - int (t_delay b) \<noteq> 0 then int (t_delay a) - int (t_delay b)
      else int (t_line a) - int (t_line b))"

primrec insertTask :: "pendingTask \<Rightarrow> pendingTask list \<Rightarrow> pendingTask list" where
  "insertTask x [] = [x]"
| "insertTask x (y # ys) =
     (if compareTasks x y \<le> 0 then x # y # ys else y # insertTask x ys)"

definition sortTasks :: "pendingTask list \<Rightarrow> pendingTask list" where
  "sortTasks ts = foldr insertTask ts []"

definition taskRun :: "pendingTask \<Rightarrow> Step list" where
  "taskRun t =
     [(mkStep moveToTaskQueue)\<lparr>from_api := Some ''webAPI'', callback := Some (t_callback t),
         line := Some (t_line t),
         explanation := Some ''Timer completed, callback moved to Task Queue''\<rparr>,
      (mkStep checkEventLoop)\<lparr>explanation :=
         Some ''Event Loop picks next task from Task Queue''\<rparr>]
     @ (if t_messages t = []
        then [(mkStep addToStack)\<lparr>item := Some (t_callback t), execute := Some True,
                 line := Some (t_line t),
                 explanation := Some (''Executing callback: '' @ t_callback t)\<rparr>,
              (mkStep removeFromStack)\<lparr>explanation := Some ''Callback complete''\<rparr>]
        else concat (map (\<lambda>m.
               [(mkStep addToStack)\<lparr>item := Some (logCall m), execute := Some True,
                   line := Some (t_line t),
                   explanation := Some (''Executing callback: '' @ logCall m)\<rparr>,
                (mkStep log)\<lparr>message := Some m, explanation := Some (''Output: '' @ m)\<rparr>,
                (mkStep removeFromStack)\<lparr>explanation := Some ''Callback complete''\<rparr>])
              (t_messages t)))"

definition taskEmission :: "pendingTask list \<Rightarrow> Step list" where
  "taskEmission pts =
     (if length pts > 0 then concat (map taskRun (sortTasks pts)) else [])"

definition lineScanSteps :: "string list \<Rightarrow> Step list" where
  "lineScanSteps lns =
     (let st = scanLines lns
      in scanSteps st @ microtaskEmission (pendingMicrotasks st)
           @ taskEmission (pendingTasks st))"

subsection \<open>The two modes together\<close>

definition hasFetch :: "string \<Rightarrow> bool" where
  "hasFetch c = strIncludes (trim c) ''fetch(''"

definition compileSteps :: "string \<Rightarrow> Step list" where
  "compileSteps c =
     (let lns = splitLines (trim c); fullCode = trim c
      in if hasFetch c then fetchSteps fullCode lns else lineScanSteps lns)"

definition noValidJavaScript :: string where
  "noValidJavaScript =
     ''No valid JavaScript detected. Try adding console.log(), setTimeout(), fetch(), or Promise.resolve().then()''"

text \<open>
  \<^verbatim>\<open>parseCustomCode\<close> clears the error message, compiles, and returns
  \<^verbatim>\<open>null\<close> with the error message set when no step was produced. The result is the
  pair of the error message left in \<^verbatim>\<open>codeError\<close> and the returned value.
\<close>

definition parseCustomCode :: "string \<Rightarrow> string \<times> Example option" where
  "parseCustomCode c =
     (let sts = compileSteps c
      in if length sts = 0 then (noValidJavaScript, None)
         else ('''', Some \<lparr>name = ''Custom Code'', description = ''Your custom example'',
                          code = c, steps = sts\<rparr>))"



section \<open>Scenario inputs and the properties under study\<close>

text \<open>
  The one-line form of the promise scenario, and an input that registers a timer, clears
  it, and registers again to the same binding.
\<close>

definition coverageInput :: string where
  \<open>coverageInput = joinLines
     [''console.log("Start");'',
      ''setTimeout(() => { console.log("Timeout"); }, 0);'',
      ''Promise.resolve().then(() => { console.log("Promise"); });'',
      ''console.log("End");'']\<close>


text \<open>
  The console log after replaying every step of a compiled example from the initial
  state, as the \<^verbatim>\<open>End\<close> key does with \<^verbatim>\<open>goToStep(steps.length)\<close>.
\<close>

definition logsAfterFullReplay :: "Example option \<Rightarrow> string option list option" where
  "logsAfterFullReplay r =
     (case r of
        None \<Rightarrow> None
      | Some ex \<Rightarrow>
          (case goToStep (steps ex) (length (steps ex)) initialState of
             Inl e \<Rightarrow> None
           | Inr s \<Rightarrow> Some (logs s)))"

text \<open>Counting the steps of one action; the lines of the promotion steps in order.\<close>

definition nAct :: "action \<Rightarrow> Step list \<Rightarrow> nat" where
  "nAct a sts = length (filter (\<lambda>s. action s = a) sts)"

definition promotionLines :: "Step list \<Rightarrow> nat option list" where
  "promotionLines sts = map line (filter (\<lambda>s. action s = moveToTaskQueue) sts)"

text \<open>
  Stack balance: as many \<^verbatim>\<open>addToStack\<close> as \<^verbatim>\<open>removeFromStack\<close> steps, and in no
  prefix more removals than additions.
\<close>

definition stackBalanced :: "Step list \<Rightarrow> bool" where
  "stackBalanced sts =
     (nAct addToStack sts = nAct removeFromStack sts \<and>
      (\<forall>n. nAct removeFromStack (take n sts) \<le> nAct addToStack (take n sts)))"

text \<open>
  Whether the scan stopped inside a callback body that the input never closes: such a
  registration has its registration steps emitted but is in neither bucket.
\<close>

definition openTimers :: "scan \<Rightarrow> nat" where
  "openTimers st =
     (case active st of Some a \<Rightarrow> (if a_kind a = task then 1 else 0) | None \<Rightarrow> 0)"

definition openMicrotasks :: "scan \<Rightarrow> nat" where
  "openMicrotasks st =
     (case active st of Some a \<Rightarrow> (if a_kind a = microtask then 1 else 0) | None \<Rightarrow> 0)"

definition regTasks :: "scan \<Rightarrow> nat" where
  "regTasks st = length (pendingTasks st) + openTimers st"

definition regMicrotasks :: "scan \<Rightarrow> nat" where
  "regMicrotasks st = length (pendingMicrotasks st) + openMicrotasks st"

text \<open>
  The invariant of the line scan: the steps emitted while scanning are pushes, logs,
  pops and registrations only, one \<^verbatim>\<open>addToWebAPI\<close> per timer registration and one
  \<^verbatim>\<open>addToMicroTask\<close> per promise registration.
\<close>

definition scanInv :: "scan \<Rightarrow> bool" where
  "scanInv st =
     (set (map action (scanSteps st))
        \<subseteq> {addToStack, log, removeFromStack, addToWebAPI, addToMicroTask} \<and>
      nAct addToWebAPI (scanSteps st) = regTasks st \<and>
      nAct addToMicroTask (scanSteps st) = regMicrotasks st)"

text \<open>
  The state in which step \<open>j\<close> of a sequence is executed when the sequence is stepped
  through with \<^verbatim>\<open>nextStep\<close> from the initial state, each step in the render left by the
  step before it.
\<close>

definition stateBefore :: "Step list \<Rightarrow> nat \<Rightarrow> visualizer" where
  "stateBefore sts j = (nextStep sts ^^ j) initialState"

text \<open>
  Drained before: whenever a step whose action is in \<open>A\<close> is reached with an empty
  modeled stack, the microtask queue is empty, that is, every microtask enqueued by an
  earlier \<^verbatim>\<open>addToMicroTask\<close> step has been removed by a \<^verbatim>\<open>processMicroTasks\<close> step.
\<close>

definition drainedAt :: "action list \<Rightarrow> Step list \<Rightarrow> bool" where
  "drainedAt A sts =
     (\<forall>j \<in> set [0 ..< length sts].
        action (sts ! j) \<in> set A \<and> callStack (stateBefore sts j) = [] \<longrightarrow>
        microTaskQueue (stateBefore sts j) = [])"

text \<open>
  The microtask queue and the call stack after stepping through a list of steps, as
  functions of the queue and the stack alone; the number of queued microtasks as a
  function of the actions; and a left-to-right check that no promotion step is reached
  with a microtask queued.
\<close>

primrec microAfter :: "string option list \<Rightarrow> Step list \<Rightarrow> string option list" where
  "microAfter q [] = q"
| "microAfter q (x # xs) =
     microAfter (if action x = addToMicroTask then q @ [item x]
                 else if action x = processMicroTasks then drop 1 q else q) xs"

primrec stackAfter :: "string option list \<Rightarrow> Step list \<Rightarrow> string option list" where
  "stackAfter cs [] = cs"
| "stackAfter cs (x # xs) =
     stackAfter (if action x = addToStack then cs @ [item x]
                 else if action x = removeFromStack then butlast cs else cs) xs"

primrec microCount :: "nat \<Rightarrow> action list \<Rightarrow> nat" where
  "microCount m [] = m"
| "microCount m (a # as) =
     microCount (if a = addToMicroTask then Suc m
                 else if a = processMicroTasks then m - 1 else m) as"

primrec promotionsClear :: "nat \<Rightarrow> action list \<Rightarrow> bool" where
  "promotionsClear m [] = True"
| "promotionsClear m (a # as) =
     ((a = moveToTaskQueue \<longrightarrow> m = 0) \<and>
      promotionsClear (if a = addToMicroTask then Suc m
                       else if a = processMicroTasks then m - 1 else m) as)"

text \<open>
  The line scan of the input records at most one promise registration and does not stop
  inside a promise callback body.
\<close>

definition atMostOnePromise :: "string \<Rightarrow> bool" where
  "atMostOnePromise c =
     (let st = scanLines (splitLines (trim c))
      in openMicrotasks st = 0 \<and> length (pendingMicrotasks st) \<le> 1)"

text \<open>
  Inputs with two promise registrations and a timer, and with a promise callback body
  that is never closed.
\<close>

definition twoPromisesInput :: string where
  \<open>twoPromisesInput = joinLines
     [''setTimeout(() => {'',
      ''  console.log("Timeout");'',
      ''}, 0);'',
      ''Promise.resolve().then(() => {'',
      ''  console.log("Promise 1");'',
      ''});'',
      ''Promise.resolve().then(() => {'',
      ''  console.log("Promise 2");'',
      ''});'']\<close>

definition openPromiseInput :: string where
  \<open>openPromiseInput = joinLines
     [''setTimeout(later, 0);'',
      ''Promise.resolve().then(() => {'',
      ''  console.log("Promise");'']\<close>




text \<open>A left-to-right check of stack balance from a given depth.\<close>

primrec depthOK :: "nat \<Rightarrow> action list \<Rightarrow> bool" where
  "depthOK d [] = (d = 0)"
| "depthOK d (a # as) =
     (if a = addToStack then depthOK (Suc d) as
      else if a = removeFromStack then 0 < d \<and> depthOK (d - 1) as
      else depthOK d as)"

section \<open>Properties of the interpreter\<close>

lemma setLineAndExplanation_queues [simp]:
  "callStack (setLineAndExplanation step s) = callStack s"
  "taskQueue (setLineAndExplanation step s) = taskQueue s"
  "microTaskQueue (setLineAndExplanation step s) = microTaskQueue s"
  "webAPIs (setLineAndExplanation step s) = webAPIs s"
  "logs (setLineAndExplanation step s) = logs s"
  "eventLoopCycles (setLineAndExplanation step s) = eventLoopCycles s"
  by (simp_all add: setLineAndExplanation_def Let_def split: option.splits)

text \<open>
  C4, as the code has it. A \<^verbatim>\<open>moveToTaskQueue\<close> step drops the first entry of
  \<^verbatim>\<open>webAPIs\<close> and appends the step's own \<^verbatim>\<open>callback\<close> field to the task queue. The
  appended value is read from the step, not from the removed registry entry.
\<close>

theorem moveToTaskQueue_appends_step_callback:
  "action step = moveToTaskQueue \<Longrightarrow>
     webAPIs (executeStep rendered step s) = drop 1 (webAPIs s) \<and>
     taskQueue (executeStep rendered step s) = taskQueue s @ [callback step]"
  by (simp add: executeStep_def Let_def)

theorem moveToTaskQueue_appends_step_callback_witness:
  "action ((mkStep moveToTaskQueue)\<lparr>callback := Some ''cb''\<rparr>) = moveToTaskQueue \<and>
   webAPIs (executeStep initialState ((mkStep moveToTaskQueue)\<lparr>callback := Some ''cb''\<rparr>)
              (initialState\<lparr>webAPIs := [\<lparr>label = Some ''Timer: 0ms'', api_callback = Some ''other''\<rparr>]\<rparr>))
     = [] \<and>
   taskQueue (executeStep initialState ((mkStep moveToTaskQueue)\<lparr>callback := Some ''cb''\<rparr>)
              (initialState\<lparr>webAPIs := [\<lparr>label = Some ''Timer: 0ms'', api_callback = Some ''other''\<rparr>]\<rparr>))
     = [Some ''cb'']"
  using moveToTaskQueue_appends_step_callback
    [of "(mkStep moveToTaskQueue)\<lparr>callback := Some ''cb''\<rparr>" initialState
        "initialState\<lparr>webAPIs := [\<lparr>label = Some ''Timer: 0ms'', api_callback = Some ''other''\<rparr>]\<rparr>"]
  by (simp add: mkStep_def initialState_def)

text \<open>
  C4, counterexample. The registry holds one entry whose stored callback is \<open>''other''\<close>;
  the step carries \<open>''cb''\<close>. The value appended to the task queue is \<open>''cb''\<close>, which is
  not the callback of the removed entry.
\<close>

theorem moveToTaskQueue_not_removed_entry_callback:
  "taskQueue (executeStep initialState ((mkStep moveToTaskQueue)\<lparr>callback := Some ''cb''\<rparr>)
       (initialState\<lparr>webAPIs := [\<lparr>label = Some ''Timer: 0ms'', api_callback = Some ''other''\<rparr>]\<rparr>))
     \<noteq> taskQueue initialState @
         [api_callback (hd [\<lparr>label = Some ''Timer: 0ms'', api_callback = Some ''other''\<rparr>])]"
  by (simp add: executeStep_def Let_def mkStep_def initialState_def)

text \<open>
  C10. On an empty registry a \<^verbatim>\<open>moveToTaskQueue\<close> step does not fail: the registry
  stays empty and the task queue grows by exactly one entry, the step's own callback.
\<close>

theorem moveToTaskQueue_empty_registry:
  "action step = moveToTaskQueue \<Longrightarrow> webAPIs s = [] \<Longrightarrow>
     webAPIs (executeStep rendered step s) = [] \<and>
     taskQueue (executeStep rendered step s) = taskQueue s @ [callback step] \<and>
     length (taskQueue (executeStep rendered step s)) = length (taskQueue s) + 1"
  by (simp add: executeStep_def Let_def)

theorem moveToTaskQueue_empty_registry_witness:
  "action ((mkStep moveToTaskQueue)\<lparr>callback := Some ''animate()''\<rparr>) = moveToTaskQueue \<and>
   webAPIs initialState = [] \<and>
   webAPIs (executeStep initialState ((mkStep moveToTaskQueue)\<lparr>callback := Some ''animate()''\<rparr>)
              initialState) = [] \<and>
   taskQueue (executeStep initialState ((mkStep moveToTaskQueue)\<lparr>callback := Some ''animate()''\<rparr>)
              initialState) = [Some ''animate()'']"
  using moveToTaskQueue_empty_registry
    [of "(mkStep moveToTaskQueue)\<lparr>callback := Some ''animate()''\<rparr>" initialState initialState]
  by (simp add: mkStep_def initialState_def)

text \<open>
  C7, as the code has it. A \<^verbatim>\<open>removeFromStack\<close> step on an empty stack is tolerated:
  \<^verbatim>\<open>[].slice(0, -1)\<close> is \<^verbatim>\<open>[]\<close>, the stack stays empty and every queue, the registry,
  the log and the cycle count are unchanged. \<^verbatim>\<open>executeStep\<close> has no failing branch.
\<close>

theorem removeFromStack_empty_is_noop:
  "action step = removeFromStack \<Longrightarrow> callStack s = [] \<Longrightarrow>
     callStack (executeStep rendered step s) = [] \<and>
     taskQueue (executeStep rendered step s) = taskQueue s \<and>
     microTaskQueue (executeStep rendered step s) = microTaskQueue s \<and>
     webAPIs (executeStep rendered step s) = webAPIs s \<and>
     logs (executeStep rendered step s) = logs s \<and>
     eventLoopCycles (executeStep rendered step s) = eventLoopCycles s"
  by (simp add: executeStep_def Let_def)

theorem removeFromStack_empty_is_noop_witness:
  "action (mkStep removeFromStack) = removeFromStack \<and> callStack initialState = [] \<and>
   callStack (executeStep initialState (mkStep removeFromStack) initialState) = [] \<and>
   logs (executeStep initialState (mkStep removeFromStack) initialState) = []"
  using removeFromStack_empty_is_noop [of "mkStep removeFromStack" initialState initialState]
  by (simp add: mkStep_def initialState_def)

text \<open>
  C7, counterexample. Replaying the single step \<^verbatim>\<open>removeFromStack\<close> from the reset
  state is not an error: \<^verbatim>\<open>goToStep(1)\<close> returns a state, and that state is the reset
  state with the step counter at 1.
\<close>

theorem removeFromStack_empty_no_error:
  "goToStep [mkStep removeFromStack] 1 initialState = Inr (initialState\<lparr>currentStep := 1\<rparr>)"
  by (simp add: goToStep_def replayFrom_def executeStep_def setLineAndExplanation_def
      Let_def mkStep_def reset_def initialState_def)

text \<open>
  The replay reads the rendered state only through the emptiness of its two queues.
\<close>

lemma executeStep_rendered:
  "(microTaskQueue r1 = [] \<longleftrightarrow> microTaskQueue r2 = []) \<Longrightarrow>
   (taskQueue r1 = [] \<longleftrightarrow> taskQueue r2 = []) \<Longrightarrow>
   executeStep r1 step s = executeStep r2 step s"
  by (simp add: executeStep_def Let_def)

text \<open>
  C9, evaluated on the authored example \<^verbatim>\<open>promise\<close>. \<^verbatim>\<open>goToStep(13)\<close> from the initial
  render replays the \<^verbatim>\<open>processMicroTasks\<close> step under the guard of the initial, empty
  microtask queue and leaves the enqueued callback in the queue. The same call again,
  from the render that resulted, sees a non-empty queue and drains it. Two replays with
  the same steps and the same index end in different states.
\<close>

theorem replay_depends_on_rendered_queue:
  "(case goToStep promise_steps 13 initialState of
      Inl e \<Rightarrow> False
    | Inr a \<Rightarrow>
        (case goToStep promise_steps 13 a of
           Inl e \<Rightarrow> False
         | Inr b \<Rightarrow> microTaskQueue a = [Some (logCall ''Promise'')] \<and> microTaskQueue b = []))"
  by code_simp

section \<open>Stack balance of the example library\<close>

lemma nAct_append [simp]: "nAct a (xs @ ys) = nAct a xs + nAct a ys"
  by (simp add: nAct_def)

lemma nAct_Nil [simp]: "nAct a [] = 0"
  by (simp add: nAct_def)

lemma nAct_Cons [simp]: "nAct a (x # xs) = (if action x = a then 1 else 0) + nAct a xs"
  by (simp add: nAct_def)

lemma nAct_acts: "nAct a sts = length (filter (\<lambda>x. x = a) (map action sts))"
  by (simp add: nAct_def filter_map comp_def)

lemma nAct_zero: "a \<notin> action ` set sts \<Longrightarrow> nAct a sts = 0"
  by (induction sts) auto

lemma nAct_zero_iff: "nAct a sts = 0 \<longleftrightarrow> a \<notin> set (map action sts)"
  by (induction sts) auto

lemma nAct_concat_const:
  "(\<And>x. x \<in> set xs \<Longrightarrow> nAct a (f x) = c) \<Longrightarrow> nAct a (concat (map f xs)) = c * length xs"
  by (induction xs) auto

lemma unbalanced_counts:
  "nAct addToStack requestAnimationFrame_steps = 8"
  "nAct removeFromStack requestAnimationFrame_steps = 9"
  "nAct addToStack eventListener_steps = 6"
  "nAct removeFromStack eventListener_steps = 7"
  by code_simp+

text \<open>
  C3, evaluated on the authored examples. \<^verbatim>\<open>requestAnimationFrame\<close> has 8 pushes and
  9 pops, \<^verbatim>\<open>eventListener\<close> has 6 pushes and 7 pops: each ends with a
  \<^verbatim>\<open>removeFromStack\<close> for a handler frame that no step pushed, so neither sequence is
  balanced.
\<close>

theorem authored_examples_pop_empty_stack:
  "nAct addToStack requestAnimationFrame_steps = 8 \<and>
   nAct removeFromStack requestAnimationFrame_steps = 9 \<and>
   \<not> stackBalanced requestAnimationFrame_steps \<and>
   nAct addToStack eventListener_steps = 6 \<and>
   nAct removeFromStack eventListener_steps = 7 \<and>
   \<not> stackBalanced eventListener_steps"
  by (simp add: unbalanced_counts stackBalanced_def)

lemma depthOK_sound:
  "depthOK d (map action sts) \<Longrightarrow>
     d + nAct addToStack sts = nAct removeFromStack sts \<and>
     (\<forall>n. nAct removeFromStack (take n sts) \<le> d + nAct addToStack (take n sts))"
proof (induction sts arbitrary: d)
  case Nil
  then show ?case by simp
next
  case (Cons x xs)
  show ?case
  proof (intro conjI allI)
    show "d + nAct addToStack (x # xs) = nAct removeFromStack (x # xs)"
      using Cons.IH [of "Suc d"] Cons.IH [of "d - 1"] Cons.IH [of d] Cons.prems
      by (auto split: if_splits)
  next
    fix n
    show "nAct removeFromStack (take n (x # xs)) \<le> d + nAct addToStack (take n (x # xs))"
    proof (cases n)
      case 0
      then show ?thesis by simp
    next
      case (Suc m)
      then show ?thesis
        using Cons.IH [of "Suc d"] Cons.IH [of "d - 1"] Cons.IH [of d] Cons.prems
        by (auto split: if_splits simp: le_Suc_eq dest!: spec [of _ m])
    qed
  qed
qed

lemma depthOK_stackBalanced: "depthOK 0 (map action sts) \<Longrightarrow> stackBalanced sts"
  using depthOK_sound [of 0 sts] by (simp add: stackBalanced_def)

text \<open>The other nine authored examples are balanced.\<close>

lemma balanced_examples:
  "stackBalanced basic_steps" "stackBalanced promise_steps" "stackBalanced advanced_steps"
  "stackBalanced fetch_steps" "stackBalanced asyncAwait_steps"
  "stackBalanced multiplePromises_steps" "stackBalanced apiError_steps"
  "stackBalanced debounce_steps" "stackBalanced promiseRace_steps"
  by (rule depthOK_stackBalanced, code_simp)+

section \<open>Properties of the compiler\<close>

subsection \<open>The actions of the emitted step groups\<close>

lemma action_mkStep [simp]: "action (mkStep a) = a"
  by (simp add: mkStep_def)

lemma acts_logLineSteps [simp]:
  "map action (logLineSteps t n) = [addToStack, log, removeFromStack]"
  by (simp add: logLineSteps_def Let_def)

lemma acts_timerSteps [simp]:
  "map action (timerSteps d cb n) = [addToStack, addToWebAPI, removeFromStack]"
  by (simp add: timerSteps_def)

lemma acts_promiseSteps [simp]:
  "map action (promiseSteps cb n) = [addToStack, addToMicroTask, removeFromStack]"
  by (simp add: promiseSteps_def)

lemma acts_syncLogSteps [simp]:
  "map action (syncLogSteps lg) = [addToStack, log, removeFromStack]"
  by (simp add: syncLogSteps_def)

lemma acts_fetchHead [simp]:
  "map action (fetchHead url) = [addToStack, addToWebAPI, removeFromStack]"
  by (simp add: fetchHead_def)

lemma acts_fetchTail [simp]:
  "map action fetchTail =
     [moveToTaskQueue, addToMicroTask, checkEventLoop, processMicroTasks, addToStack,
      removeFromStack, addToMicroTask, processMicroTasks, addToStack, log, removeFromStack]"
  by (simp add: fetchTail_def)

lemma set_acts_groups [simp]:
  "action ` set (logLineSteps t n) = {addToStack, log, removeFromStack}"
  "action ` set (timerSteps d cb n) = {addToStack, addToWebAPI, removeFromStack}"
  "action ` set (promiseSteps cb n) = {addToStack, addToMicroTask, removeFromStack}"
  using acts_logLineSteps [of t n] acts_timerSteps [of d cb n] acts_promiseSteps [of cb n]
  by (metis list.set_map list.simps(15) empty_set)+

lemma nAct_groups [simp]:
  "nAct a (timerSteps d cb n) = (if a \<in> {addToStack, addToWebAPI, removeFromStack} then 1 else 0)"
  "nAct a (promiseSteps cb n) = (if a \<in> {addToStack, addToMicroTask, removeFromStack} then 1 else 0)"
  "nAct a (logLineSteps t n) = (if a \<in> {addToStack, log, removeFromStack} then 1 else 0)"
  by (simp_all add: nAct_acts)

lemma acts_sync_part:
  "set (map action (concat (map syncLogSteps lgs))) \<subseteq> {addToStack, log, removeFromStack}"
proof -
  have "\<And>lg. action ` set (syncLogSteps lg) = {addToStack, log, removeFromStack}"
    using acts_syncLogSteps by (metis list.set_map list.simps(15) empty_set)
  then show ?thesis by auto
qed

lemma acts_microtaskRun:
  "action ` set (microtaskRun t) \<subseteq> {addToStack, log, removeFromStack}"
  by (auto simp: microtaskRun_def)

lemma acts_microtaskEmission:
  "action ` set (microtaskEmission pms)
     \<subseteq> {checkEventLoop, processMicroTasks, addToStack, log, removeFromStack}"
  using acts_microtaskRun by (auto simp: microtaskEmission_def)

lemma taskRun_shape:
  "\<exists>mv ck body. taskRun t = mv # ck # body \<and> action mv = moveToTaskQueue \<and>
     action ck = checkEventLoop \<and> line mv = Some (t_line t) \<and>
     action ` set body \<subseteq> {addToStack, log, removeFromStack}"
  by (auto simp: taskRun_def mkStep_def)

lemma taskRun_counts [simp]:
  "nAct moveToTaskQueue (taskRun t) = 1"
  "nAct addToWebAPI (taskRun t) = 0"
  "nAct addToMicroTask (taskRun t) = 0"
proof -
  obtain mv ck body where h: "taskRun t = mv # ck # body" "action mv = moveToTaskQueue"
    "action ck = checkEventLoop" "action ` set body \<subseteq> {addToStack, log, removeFromStack}"
    using taskRun_shape by blast
  have "nAct moveToTaskQueue body = 0" "nAct addToWebAPI body = 0" "nAct addToMicroTask body = 0"
    using h(4) by (auto intro!: nAct_zero)
  then show "nAct moveToTaskQueue (taskRun t) = 1" "nAct addToWebAPI (taskRun t) = 0"
    "nAct addToMicroTask (taskRun t) = 0"
    using h by simp_all
qed

subsection \<open>The sort of the pending timers\<close>

lemma compareTasks_le:
  "compareTasks a b \<le> 0 \<longleftrightarrow>
     t_delay a < t_delay b \<or> (t_delay a = t_delay b \<and> t_line a \<le> t_line b)"
  by (auto simp: compareTasks_def)

lemma length_insertTask [simp]: "length (insertTask x ys) = Suc (length ys)"
  by (induction ys) simp_all

lemma set_insertTask [simp]: "set (insertTask x ys) = insert x (set ys)"
  by (induction ys) auto

lemma length_sortTasks [simp]: "length (sortTasks ts) = length ts"
  by (induction ts) (simp_all add: sortTasks_def)

lemma set_sortTasks [simp]: "set (sortTasks ts) = set ts"
  by (induction ts) (simp_all add: sortTasks_def)

lemma sorted_insertTask:
  "sorted_wrt (\<lambda>a b. compareTasks a b \<le> 0) ys \<Longrightarrow>
     sorted_wrt (\<lambda>a b. compareTasks a b \<le> 0) (insertTask x ys)"
proof (induction ys)
  case Nil
  then show ?case by simp
next
  case (Cons y ys)
  show ?case
  proof (cases "compareTasks x y \<le> 0")
    case True
    have "compareTasks x z \<le> 0" if "z \<in> set ys" for z
    proof -
      have "compareTasks y z \<le> 0" using Cons.prems that by simp
      with True show ?thesis by (auto simp: compareTasks_le)
    qed
    with True Cons.prems show ?thesis by simp
  next
    case False
    then have "compareTasks y x \<le> 0" by (auto simp: compareTasks_le)
    with False Cons show ?thesis by auto
  qed
qed

text \<open>
  The sorted list is in ascending order of the recorded delay, ties in ascending order
  of the registration line.
\<close>

lemma sortTasks_sorted: "sorted_wrt (\<lambda>a b. compareTasks a b \<le> 0) (sortTasks ts)"
  by (induction ts) (simp_all add: sortTasks_def sorted_insertTask)

subsection \<open>The invariant of the line scan\<close>

lemma scanInv_start: "scanInv scanStart"
  by (simp add: scanInv_def scanStart_def regTasks_def regMicrotasks_def openTimers_def
      openMicrotasks_def)

lemma pushPending_fields [simp]:
  "scanSteps (pushPending a st) = scanSteps st"
  "active (pushPending a st) = active st"
  "callbackDepth (pushPending a st) = callbackDepth st"
  "length (pendingTasks (pushPending a st)) =
     length (pendingTasks st) + (if a_kind a = task then 1 else 0)"
  "length (pendingMicrotasks (pushPending a st)) =
     length (pendingMicrotasks st) + (if a_kind a = microtask then 1 else 0)"
  by (cases "a_kind a"; simp add: pushPending_def)+

lemma closeCallback_fields [simp]:
  "scanSteps (closeCallback a st) = scanSteps st"
  "active (closeCallback a st) = None"
  "length (pendingTasks (closeCallback a st)) =
     length (pendingTasks st) + (if a_kind a = task then 1 else 0)"
  "length (pendingMicrotasks (closeCallback a st)) =
     length (pendingMicrotasks st) + (if a_kind a = microtask then 1 else 0)"
  by (simp_all add: closeCallback_def)

lemma insideCallback_reg:
  assumes "active st = Some a"
  shows "scanSteps (insideCallback t a st) = scanSteps st"
    and "regTasks (insideCallback t a st) = regTasks st"
    and "regMicrotasks (insideCallback t a st) = regMicrotasks st"
  using assms
  by (cases "a_kind a";
      simp add: insideCallback_def Let_def regTasks_def regMicrotasks_def openTimers_def
        openMicrotasks_def)+

lemma openCallback_reg:
  assumes "active st = None"
  shows "scanSteps (openCallback k t n d cb m st) = scanSteps st"
    and "regTasks (openCallback k t n d cb m st) = regTasks st + (if k = task then 1 else 0)"
    and "regMicrotasks (openCallback k t n d cb m st)
           = regMicrotasks st + (if k = microtask then 1 else 0)"
  using assms
  by (cases k;
      simp add: openCallback_def Let_def regTasks_def regMicrotasks_def openTimers_def
        openMicrotasks_def)+

lemma reg_scanSteps_update [simp]:
  "regTasks (st\<lparr>scanSteps := x\<rparr>) = regTasks st"
  "regMicrotasks (st\<lparr>scanSteps := x\<rparr>) = regMicrotasks st"
  by (simp_all add: regTasks_def regMicrotasks_def openTimers_def openMicrotasks_def)

lemma topLevelLine_inv:
  assumes "active st = None" and "scanInv st"
  shows "scanInv (topLevelLine t n st)"
proof -
  have a1: "\<And>x. active (st\<lparr>scanSteps := x\<rparr>) = None"
    using assms(1) by simp
  show ?thesis
    using assms(2)
    by (simp add: topLevelLine_def Let_def scanInv_def openCallback_reg [OF a1] image_Un)
qed

lemma scanInv_scanLine: "scanInv st \<Longrightarrow> scanInv (scanLine il st)"
proof (cases "active st")
  case None
  assume "scanInv st"
  then show ?thesis
    using None topLevelLine_inv [OF None] by (simp add: scanLine_def Let_def)
next
  case (Some a)
  assume "scanInv st"
  then show ?thesis
    using Some insideCallback_reg [OF Some]
    by (simp add: scanLine_def Let_def scanInv_def)
qed

lemma foldl_inv:
  "P s \<Longrightarrow> (\<And>x t. P t \<Longrightarrow> P (f t x)) \<Longrightarrow> P (foldl f s xs)"
  by (induction xs arbitrary: s) simp_all

lemma scanInv_scanLines: "scanInv (scanLines lns)"
  unfolding scanLines_def
  by (rule foldl_inv [where P = scanInv]) (simp_all add: scanInv_start scanInv_scanLine)


subsection \<open>Promotions and registrations\<close>

lemma taskEmission_counts [simp]:
  "nAct moveToTaskQueue (taskEmission pts) = length pts"
  "nAct addToWebAPI (taskEmission pts) = 0"
  by (simp_all add: taskEmission_def nAct_concat_const [where c = 1]
      nAct_concat_const [where c = 0])

lemma microtaskEmission_counts [simp]:
  "nAct moveToTaskQueue (microtaskEmission pms) = 0"
  "nAct addToWebAPI (microtaskEmission pms) = 0"
  using acts_microtaskEmission [of pms] by (auto intro!: nAct_zero)

lemma promotionLines_append [simp]:
  "promotionLines (xs @ ys) = promotionLines xs @ promotionLines ys"
  by (simp add: promotionLines_def)

lemma promotionLines_Nil [simp]: "promotionLines [] = []"
  by (simp add: promotionLines_def)

lemma promotionLines_none:
  "moveToTaskQueue \<notin> action ` set sts \<Longrightarrow> promotionLines sts = []"
  by (induction sts) (auto simp: promotionLines_def)

lemma promotionLines_taskRun [simp]: "promotionLines (taskRun t) = [Some (t_line t)]"
proof -
  obtain mv ck body where h: "taskRun t = mv # ck # body" "action mv = moveToTaskQueue"
    "action ck = checkEventLoop" "line mv = Some (t_line t)"
    "action ` set body \<subseteq> {addToStack, log, removeFromStack}"
    using taskRun_shape by blast
  have "promotionLines body = []"
    using h(5) by (intro promotionLines_none) auto
  then show ?thesis
    using h by (simp add: promotionLines_def)
qed

lemma promotionLines_tasks:
  "promotionLines (concat (map taskRun ts)) = map (\<lambda>t. Some (t_line t)) ts"
  by (induction ts) simp_all

text \<open>
  In line-scan mode the promotion steps are those of the pending timers, in the order of
  the sort: ascending recorded delay, then ascending registration line.
\<close>

lemma promotionLines_lineScanSteps:
  "promotionLines (lineScanSteps lns)
     = map (\<lambda>t. Some (t_line t)) (sortTasks (pendingTasks (scanLines lns)))"
proof -
  have "promotionLines (scanSteps (scanLines lns)) = []"
    using scanInv_scanLines [of lns]
    by (intro promotionLines_none) (auto simp: scanInv_def)
  moreover have "promotionLines (microtaskEmission (pendingMicrotasks (scanLines lns))) = []"
    using acts_microtaskEmission [of "pendingMicrotasks (scanLines lns)"]
    by (intro promotionLines_none) auto
  moreover have "promotionLines (taskEmission (pendingTasks (scanLines lns)))
      = map (\<lambda>t. Some (t_line t)) (sortTasks (pendingTasks (scanLines lns)))"
    by (simp add: taskEmission_def promotionLines_tasks sortTasks_def)
  ultimately show ?thesis
    by (simp add: lineScanSteps_def Let_def)
qed




subsection \<open>Microtask drains and promotions\<close>

lemma executeStep_currentStep [simp]: "currentStep (executeStep r x s) = currentStep s"
  by (cases "action x")
     (simp_all add: executeStep_def Let_def setLineAndExplanation_def split: option.splits)

lemma executeStep_microTaskQueue:
  "microTaskQueue s = microTaskQueue r \<Longrightarrow>
   microTaskQueue (executeStep r x s) =
     (if action x = addToMicroTask then microTaskQueue s @ [item x]
      else if action x = processMicroTasks then drop 1 (microTaskQueue s)
      else microTaskQueue s)"
  by (cases "action x") (simp_all add: executeStep_def Let_def)

lemma executeStep_callStack:
  "callStack (executeStep r x s) =
     (if action x = addToStack then callStack s @ [item x]
      else if action x = removeFromStack then butlast (callStack s)
      else callStack s)"
  by (cases "action x") (simp_all add: executeStep_def Let_def)

lemma nextStep_fields:
  assumes "currentStep s < length sts"
  shows "currentStep (nextStep sts s) = Suc (currentStep s)"
    and "microTaskQueue (nextStep sts s) =
           microAfter (microTaskQueue s) [sts ! currentStep s]"
    and "callStack (nextStep sts s) = stackAfter (callStack s) [sts ! currentStep s]"
  using assms
  by (simp_all add: nextStep_def executeStep_microTaskQueue executeStep_callStack)

lemma nextStep_iterated:
  "currentStep s + j \<le> length sts \<Longrightarrow>
     currentStep ((nextStep sts ^^ j) s) = currentStep s + j \<and>
     microTaskQueue ((nextStep sts ^^ j) s)
       = microAfter (microTaskQueue s) (take j (drop (currentStep s) sts)) \<and>
     callStack ((nextStep sts ^^ j) s)
       = stackAfter (callStack s) (take j (drop (currentStep s) sts))"
proof (induction j arbitrary: s)
  case 0
  then show ?case by simp
next
  case (Suc j)
  let ?k = "currentStep s"
  have k: "?k < length sts" using Suc.prems by simp
  have split: "take (Suc j) (drop ?k sts) = sts ! ?k # take j (drop (Suc ?k) sts)"
    using k by (simp add: Cons_nth_drop_Suc [symmetric])
  have "currentStep (nextStep sts s) + j \<le> length sts"
    using Suc.prems nextStep_fields(1) [OF k] by simp
  from Suc.IH [OF this] show ?case
    by (simp add: funpow_Suc_right split nextStep_fields [OF k] del: funpow.simps)
qed

lemma stateBefore_fields:
  "j \<le> length sts \<Longrightarrow>
     microTaskQueue (stateBefore sts j) = microAfter [] (take j sts) \<and>
     callStack (stateBefore sts j) = stackAfter [] (take j sts)"
  using nextStep_iterated [of initialState j sts]
  by (simp add: stateBefore_def initialState_def)

lemma length_microAfter:
  "length (microAfter q xs) = microCount (length q) (map action xs)"
  by (induction xs arbitrary: q) simp_all

lemma microCount_append: "microCount m (xs @ ys) = microCount (microCount m xs) ys"
  by (induction xs arbitrary: m) simp_all

lemma promotionsClear_append:
  "promotionsClear m (xs @ ys) = (promotionsClear m xs \<and> promotionsClear (microCount m xs) ys)"
  by (induction xs arbitrary: m) simp_all

lemma promotionsClear_no_promotion: "moveToTaskQueue \<notin> set xs \<Longrightarrow> promotionsClear m xs"
  by (induction xs arbitrary: m) auto

lemma promotionsClear_no_enqueue: "addToMicroTask \<notin> set xs \<Longrightarrow> promotionsClear 0 xs"
  by (induction xs) auto

lemma microCount_no_enqueue: "addToMicroTask \<notin> set xs \<Longrightarrow> microCount 0 xs = 0"
  by (induction xs) auto

lemma microCount_neutral:
  "addToMicroTask \<notin> set xs \<Longrightarrow> processMicroTasks \<notin> set xs \<Longrightarrow> microCount m xs = m"
  by (induction xs arbitrary: m) auto

lemma microCount_no_drain:
  "processMicroTasks \<notin> set xs \<Longrightarrow>
     microCount m xs = m + length (filter (\<lambda>a. a = addToMicroTask) xs)"
  by (induction xs arbitrary: m) auto

lemma promotionsClear_sound:
  "promotionsClear m (map action sts) \<Longrightarrow> j < length sts \<Longrightarrow>
   action (sts ! j) = moveToTaskQueue \<Longrightarrow> microCount m (map action (take j sts)) = 0"
proof (induction sts arbitrary: m j)
  case Nil
  then show ?case by simp
next
  case (Cons x xs)
  show ?case
  proof (cases j)
    case 0
    then show ?thesis using Cons.prems by simp
  next
    case (Suc j')
    then show ?thesis
      using Cons.prems Cons.IH [of _ j'] by simp
  qed
qed

lemma promotionsClear_drainedAt:
  assumes "promotionsClear 0 (map action sts)"
  shows "drainedAt [moveToTaskQueue] sts"
  unfolding drainedAt_def
proof (intro ballI impI)
  fix j
  assume j: "j \<in> set [0 ..< length sts]"
    and h: "action (sts ! j) \<in> set [moveToTaskQueue] \<and> callStack (stateBefore sts j) = []"
  have jl: "j < length sts" using j by simp
  have "microCount 0 (map action (take j sts)) = 0"
    using promotionsClear_sound [OF assms jl] h by simp
  then have "length (microAfter [] (take j sts)) = 0"
    by (simp add: length_microAfter)
  then show "microTaskQueue (stateBefore sts j) = []"
    using stateBefore_fields [of j sts] jl by simp
qed

lemma promotionsClear_fetchSteps:
  "promotionsClear 0 (map action (fetchSteps fullCode lns))"
proof -
  let ?sync = "map action (concat (map syncLogSteps (syncLogs lns)))"
  have s: "addToMicroTask \<notin> set ?sync" "processMicroTasks \<notin> set ?sync"
    "moveToTaskQueue \<notin> set ?sync"
    using acts_sync_part [of "syncLogs lns"] by auto
  have "promotionsClear m ?sync" "microCount m ?sync = m" for m
    using s by (simp_all add: promotionsClear_no_promotion microCount_neutral del: set_map)
  then show ?thesis
    by (simp add: fetchSteps_def Let_def promotionsClear_append microCount_append del: set_map)
qed

lemma promotionsClear_lineScanSteps:
  assumes "atMostOnePromise c"
  shows "promotionsClear 0 (map action (lineScanSteps (splitLines (trim c))))"
proof -
  let ?st = "scanLines (splitLines (trim c))"
  let ?S = "map action (scanSteps ?st)"
  let ?M = "map action (microtaskEmission (pendingMicrotasks ?st))"
  let ?T = "map action (taskEmission (pendingTasks ?st))"
  have inv: "scanInv ?st" by (rule scanInv_scanLines)
  have hyp: "openMicrotasks ?st = 0" "length (pendingMicrotasks ?st) \<le> 1"
    using assms by (simp_all add: atMostOnePromise_def Let_def)
  have Sset: "set ?S \<subseteq> {addToStack, log, removeFromStack, addToWebAPI, addToMicroTask}"
    using inv by (simp add: scanInv_def)
  have S: "promotionsClear 0 ?S"
    using Sset by (intro promotionsClear_no_promotion) auto
  have "processMicroTasks \<notin> set ?S" using Sset by auto
  then have "microCount 0 ?S = length (filter (\<lambda>a. a = addToMicroTask) ?S)"
    by (simp add: microCount_no_drain del: set_map)
  also have "\<dots> = nAct addToMicroTask (scanSteps ?st)" by (simp add: nAct_acts)
  also have "\<dots> = length (pendingMicrotasks ?st)"
    using inv hyp(1) by (simp add: scanInv_def regMicrotasks_def)
  finally have cnt: "microCount 0 ?S = length (pendingMicrotasks ?st)" .
  have M: "promotionsClear m ?M" for m
    using acts_microtaskEmission [of "pendingMicrotasks ?st"]
    by (intro promotionsClear_no_promotion) auto
  have runs: "addToMicroTask \<notin> set (map action (concat (map microtaskRun pms)))"
    "processMicroTasks \<notin> set (map action (concat (map microtaskRun pms)))" for pms
    using acts_microtaskRun by auto
  have after: "microCount (microCount 0 ?S) ?M = 0"
  proof (cases "pendingMicrotasks ?st = []")
    case True
    then show ?thesis using cnt by (simp add: microtaskEmission_def)
  next
    case False
    then have "microCount 0 ?S = 1" using cnt hyp(2) by (cases "pendingMicrotasks ?st") auto
    then show ?thesis
      using False runs [of "pendingMicrotasks ?st"]
      by (simp add: microtaskEmission_def microCount_neutral del: set_map)
  qed
  have "addToMicroTask \<notin> set ?T"
  proof -
    have "nAct addToMicroTask (taskEmission (pendingTasks ?st)) = 0"
      by (simp add: taskEmission_def nAct_concat_const [where c = 0])
    then show ?thesis by (simp add: nAct_zero_iff del: set_map)
  qed
  then have T: "promotionsClear (microCount (microCount 0 ?S) ?M) ?T"
    using after by (simp add: promotionsClear_no_enqueue del: set_map)
  show ?thesis
    using S M T
    by (simp add: lineScanSteps_def Let_def promotionsClear_append microCount_append)
qed

text \<open>
  C2, as the code has it. In fetch mode, and in line-scan mode for every input with at
  most one promise registration whose callback body is closed: whenever a
  \<^verbatim>\<open>moveToTaskQueue\<close> step of the compiled sequence is reached with an empty modeled
  stack, the microtask queue is empty, so every microtask enqueued before it has been
  drained. The \<^verbatim>\<open>checkEventLoop\<close> marker is not covered: both modes emit it between
  the enqueue and the drain.
\<close>

theorem microtasks_drained_before_promotion:
  "hasFetch c \<or> atMostOnePromise c \<Longrightarrow> drainedAt [moveToTaskQueue] (compileSteps c)"
  by (rule promotionsClear_drainedAt)
     (auto simp: compileSteps_def Let_def promotionsClear_fetchSteps
        promotionsClear_lineScanSteps)

theorem microtasks_drained_before_promotion_witness:
  "(hasFetch promise_code \<or> atMostOnePromise promise_code) \<and>
   drainedAt [moveToTaskQueue] (compileSteps promise_code)"
proof -
  have "atMostOnePromise promise_code" by code_simp
  then have h: "hasFetch promise_code \<or> atMostOnePromise promise_code" by simp
  show ?thesis
    by (rule conjI [OF h microtasks_drained_before_promotion [OF h]])
qed

text \<open>
  C2, counterexample. Compiling the code of the authored example \<^verbatim>\<open>promise\<close> puts the
  \<^verbatim>\<open>checkEventLoop\<close> marker at position 12, after the \<^verbatim>\<open>addToMicroTask\<close> step and
  before the \<^verbatim>\<open>processMicroTasks\<close> step: it is reached with an empty stack while the
  promise callback is still queued.
\<close>

lemma promise_code_marker:
  "length (compileSteps promise_code) = 22"
  "action (compileSteps promise_code ! 12) = checkEventLoop"
  "stackAfter [] (take 12 (compileSteps promise_code)) = []"
  "microAfter [] (take 12 (compileSteps promise_code)) = [Some ''promise callback'']"
  by code_simp+

theorem marker_precedes_drain:
  "\<not> drainedAt [moveToTaskQueue, checkEventLoop] (compileSteps promise_code)"
proof
  assume d: "drainedAt [moveToTaskQueue, checkEventLoop] (compileSteps promise_code)"
  have "12 \<in> set [0 ..< length (compileSteps promise_code)]"
    by (simp add: promise_code_marker)
  moreover have "callStack (stateBefore (compileSteps promise_code) 12) = []"
    "microTaskQueue (stateBefore (compileSteps promise_code) 12) \<noteq> []"
    using stateBefore_fields [of 12 "compileSteps promise_code"]
    by (simp_all add: promise_code_marker)
  ultimately show False
    using d promise_code_marker(2) unfolding drainedAt_def by fastforce
qed

text \<open>
  The inputs that the statement above leaves out. The compiler emits one
  \<^verbatim>\<open>processMicroTasks\<close> step however many promise registrations it recorded, and none
  for a registration whose body the input never closes; in both cases the promotion at
  the given position is reached with a microtask still queued.
\<close>

lemma two_promises_one_drain:
  "action (compileSteps twoPromisesInput ! 17) = moveToTaskQueue"
  "stackAfter [] (take 17 (compileSteps twoPromisesInput)) = []"
  "microAfter [] (take 17 (compileSteps twoPromisesInput)) = [Some ''promise callback'']"
  "nAct addToMicroTask (compileSteps twoPromisesInput) = 2"
  "nAct processMicroTasks (compileSteps twoPromisesInput) = 1"
  by code_simp+

lemma open_promise_body_not_drained:
  "action (compileSteps openPromiseInput ! 6) = moveToTaskQueue"
  "stackAfter [] (take 6 (compileSteps openPromiseInput)) = []"
  "microAfter [] (take 6 (compileSteps openPromiseInput)) = [Some ''promise callback'']"
  "nAct processMicroTasks (compileSteps openPromiseInput) = 0"
  by code_simp+

subsection \<open>Stack balance of compiled sequences\<close>

lemma stackBalanced_Nil [simp]: "stackBalanced []"
  by (simp add: stackBalanced_def)

lemma stackBalanced_append:
  "stackBalanced xs \<Longrightarrow> stackBalanced ys \<Longrightarrow> stackBalanced (xs @ ys)"
  by (simp add: stackBalanced_def add_mono)

lemma stackBalanced_concat:
  "(\<And>x. x \<in> set xs \<Longrightarrow> stackBalanced (f x)) \<Longrightarrow> stackBalanced (concat (map f xs))"
  by (induction xs) (simp_all add: stackBalanced_append)

lemma stackBalanced_neutral:
  "action x \<noteq> addToStack \<Longrightarrow> action x \<noteq> removeFromStack \<Longrightarrow> stackBalanced [x]"
  by (simp add: stackBalanced_def take_Cons')

lemma stackBalanced_pair:
  "action a = addToStack \<Longrightarrow> action b = removeFromStack \<Longrightarrow> stackBalanced [a, b]"
  by (simp add: stackBalanced_def take_Cons')

lemma stackBalanced_triple:
  "action a = addToStack \<Longrightarrow> action x \<noteq> addToStack \<Longrightarrow> action x \<noteq> removeFromStack \<Longrightarrow>
   action b = removeFromStack \<Longrightarrow> stackBalanced [a, x, b]"
  by (simp add: stackBalanced_def take_Cons')

lemma stackBalanced_groups [simp]:
  "stackBalanced (logLineSteps t n)"
  "stackBalanced (timerSteps d cb n)"
  "stackBalanced (promiseSteps cb n)"
  "stackBalanced (syncLogSteps lg)"
  "stackBalanced (fetchHead url)"
  by (simp_all add: logLineSteps_def timerSteps_def promiseSteps_def syncLogSteps_def
      fetchHead_def Let_def stackBalanced_triple)

lemma stackBalanced_fetchTail [simp]: "stackBalanced fetchTail"
  by (rule depthOK_stackBalanced) simp

lemma stackBalanced_microtaskRun [simp]: "stackBalanced (microtaskRun t)"
  by (simp add: microtaskRun_def stackBalanced_pair stackBalanced_triple stackBalanced_concat)

lemma stackBalanced_taskRun [simp]: "stackBalanced (taskRun t)"
proof -
  have "stackBalanced ([(mkStep moveToTaskQueue)\<lparr>from_api := Some ''webAPI'',
         callback := Some (t_callback t), line := Some (t_line t),
         explanation := Some ''Timer completed, callback moved to Task Queue''\<rparr>] @
      [(mkStep checkEventLoop)\<lparr>explanation :=
         Some ''Event Loop picks next task from Task Queue''\<rparr>] @ body)"
    if "stackBalanced body" for body
    using that by (intro stackBalanced_append stackBalanced_neutral) simp_all
  then show ?thesis
    by (simp add: taskRun_def stackBalanced_pair stackBalanced_triple stackBalanced_concat)
qed

lemma stackBalanced_microtaskEmission [simp]: "stackBalanced (microtaskEmission pms)"
proof -
  have "stackBalanced ([a] @ [b] @ body)"
    if "action a = checkEventLoop" "action b = processMicroTasks" "stackBalanced body"
    for a b body
    using that by (intro stackBalanced_append stackBalanced_neutral) simp_all
  then show ?thesis
    by (simp add: microtaskEmission_def stackBalanced_concat)
qed

lemma stackBalanced_taskEmission [simp]: "stackBalanced (taskEmission pts)"
  by (simp add: taskEmission_def stackBalanced_concat)

lemma stackBalanced_scanLine:
  "stackBalanced (scanSteps st) \<Longrightarrow> stackBalanced (scanSteps (scanLine il st))"
proof (cases "active st")
  case None
  assume "stackBalanced (scanSteps st)"
  moreover have "\<And>x. active (st\<lparr>scanSteps := x\<rparr>) = None" using None by simp
  ultimately show ?thesis
    using None
    by (simp add: scanLine_def Let_def topLevelLine_def openCallback_reg stackBalanced_append)
next
  case (Some a)
  assume "stackBalanced (scanSteps st)"
  then show ?thesis
    using Some by (simp add: scanLine_def Let_def insideCallback_reg)
qed

lemma stackBalanced_scanLines: "stackBalanced (scanSteps (scanLines lns))"
  unfolding scanLines_def
  by (rule foldl_inv [where P = "\<lambda>st. stackBalanced (scanSteps st)"])
     (simp_all add: scanStart_def stackBalanced_scanLine)

text \<open>Every sequence that the compiler produces is balanced, in both modes.\<close>

lemma compileSteps_stackBalanced: "stackBalanced (compileSteps c)"
  by (simp add: compileSteps_def Let_def fetchSteps_def lineScanSteps_def
      stackBalanced_append stackBalanced_concat stackBalanced_scanLines)

subsection \<open>Compile errors\<close>






text \<open>Fetch mode always produces steps, so it never ends in a compile error.\<close>

lemma fetch_mode_always_compiles:
  "hasFetch c \<Longrightarrow> compileSteps c \<noteq> [] \<and> snd (parseCustomCode c) \<noteq> None"
  by (simp add: compileSteps_def Let_def fetchSteps_def fetchHead_def parseCustomCode_def)




text \<open>An example that the compiler returns always has steps.\<close>

lemma parsed_example_has_steps:
  "snd (parseCustomCode c) = Some ex \<Longrightarrow> steps ex \<noteq> [] \<and> steps ex = compileSteps c"
  by (auto simp: parseCustomCode_def Let_def split: if_splits)

subsection \<open>The scenarios evaluated\<close>

text \<open>
  C1, evaluated. The four-line input compiles to an example, but each of its lines
  contains \<^verbatim>\<open>console.log\<close>, so the first branch of the line scan takes all four as
  synchronous log lines: neither the timer nor the promise is registered, and the full
  replay logs the messages in source order.
\<close>

theorem coverage_scenario_logs_in_source_order:
  "logsAfterFullReplay (snd (parseCustomCode coverageInput))
     = Some [Some ''Start'', Some ''Timeout'', Some ''Promise'', Some ''End'']"
  by code_simp

text \<open>The same program with the callback bodies on their own lines compiles as expected.\<close>

lemma promise_code_logs:
  "logsAfterFullReplay (snd (parseCustomCode promise_code))
     = Some [Some ''Start'', Some ''End'', Some ''Promise'', Some ''Timeout'']"
  by code_simp

text \<open>
  C5, evaluated on the code of the authored example \<^verbatim>\<open>advanced\<close>, which registers a
  100 ms timer on line 3 and a 0 ms timer on line 7, both with block callbacks. The delay
  pattern is matched against the first line of a registration only, where a block
  callback has no delay yet: both timers are recorded with delay 0, and the promotion of
  the 100 ms timer comes first. The authored steps of the same example promote the 0 ms
  timer first.
\<close>

theorem block_timer_delay_read_as_zero:
  "map item (filter (\<lambda>s. action s = addToWebAPI) (compileSteps advanced_code))
     = [Some ''Timer: 0ms'', Some ''Timer: 0ms''] \<and>
   promotionLines (compileSteps advanced_code) = [Some 3, Some 7] \<and>
   logsAfterFullReplay (snd (parseCustomCode advanced_code))
     = Some [Some ''1'', Some ''5'', Some ''4'', Some ''2'', Some ''3''] \<and>
   promotionLines advanced_steps = [Some 8, Some 4] \<and>
   logsAfterFullReplay (Some (allExamples initialCustomExample advanced))
     = Some [Some ''1'', Some ''5'', Some ''4'', Some ''3'', Some ''2'']"
  by code_simp

text \<open>With the delays on the registration lines the order is by delay.\<close>

lemma inline_delays_sorted:
  "promotionLines (compileSteps (joinLines [''setTimeout(late, 100);'', ''setTimeout(soon, 0);'']))
     = [Some 2, Some 1]"
  by code_simp

end
